theory Spec2Isabelle
  imports Main
begin

section \<open>Python exceptions and effectful computations\<close>

text \<open>
  The repository is a thin layer over the aiomysql driver. Every method is a coroutine
  that mutates its object, calls the driver and may raise. A computation is therefore
  a function from a state to a result (\<open>Inl\<close> an exception, \<open>Inr\<close> a value) paired with
  the state reached; the state is kept on both branches, because what was done before an
  exception was raised stays done.
\<close>

datatype exn = RuntimeError string | OtherError string

type_synonym ('s, 'a) prog = "'s \<Rightarrow> (exn + 'a) \<times> 's"

definition ret :: "'a \<Rightarrow> ('s, 'a) prog" where
  "ret x s = (Inr x, s)"

definition raise :: "exn \<Rightarrow> ('s, 'a) prog" where
  "raise e s = (Inl e, s)"

definition bnd :: "('s, 'a) prog \<Rightarrow> ('a \<Rightarrow> ('s, 'b) prog) \<Rightarrow> ('s, 'b) prog" where
  "bnd m f s = (case m s of (Inl e, s') \<Rightarrow> (Inl e, s') | (Inr x, s') \<Rightarrow> f x s')"

text \<open>
  \<^verbatim>\<open>try: body finally: fin\<close>: the final block runs on every path; an exception of the
  final block replaces the outcome of the body, otherwise the outcome of the body stands.
\<close>

definition try_finally :: "('s, 'a) prog \<Rightarrow> ('s, unit) prog \<Rightarrow> ('s, 'a) prog" where
  "try_finally body fin s =
     (case body s of (r, s1) \<Rightarrow>
        (case fin s1 of (Inl e, s2) \<Rightarrow> (Inl e, s2) | (Inr u, s2) \<Rightarrow> (r, s2)))"

text \<open>
  \<^verbatim>\<open>async with cm as x: body\<close>. When entering raises, neither the body nor the exit
  handler runs. Otherwise the exit handler runs once, with the exception of the body or
  with \<open>None\<close>. Every exit handler of this repository returns \<open>None\<close>, so the exception
  of the body is raised again after it, unless the handler raised one of its own.
\<close>

definition async_with ::
  "('s, 'x) prog \<Rightarrow> ('x \<Rightarrow> exn option \<Rightarrow> ('s, unit) prog) \<Rightarrow> ('x \<Rightarrow> ('s, 'a) prog) \<Rightarrow> ('s, 'a) prog"
where
  "async_with enter exit body =
     bnd enter (\<lambda>x s.
       case body x s of
         (Inl e, s1) \<Rightarrow>
           (case exit x (Some e) s1 of (Inl e', s2) \<Rightarrow> (Inl e', s2) | (Inr u, s2) \<Rightarrow> (Inl e, s2))
       | (Inr v, s1) \<Rightarrow>
           (case exit x None s1 of (Inl e', s2) \<Rightarrow> (Inl e', s2) | (Inr u, s2) \<Rightarrow> (Inr v, s2)))"

section \<open>The driver as an external collaborator\<close>

text \<open>
  aiomysql is not part of the repository. The calls the code makes on it are recorded, in
  order, in a trace; what each call answers is decided by a \<open>driver\<close>, a parameter
  of every definition, from the calls made so far. A call that raises is still recorded:
  it was issued. The logger calls of the source have no effect on any of this and are
  left out.
\<close>

datatype cfg = CStr string | CInt int | CBool bool | CNone

datatype cursor_kind = Cursor | DictCursor

datatype 'v call =
    CreatePool "(string \<times> cfg) list"
  | PoolAcquire nat
  | PoolRelease nat nat
  | PoolClose nat
  | PoolWaitClosed nat
  | ConnBegin nat
  | ConnCommit nat
  | ConnRollback nat
  | CursorOpen nat cursor_kind
  | CursorClose nat
  | CurExecute nat string "'v list option"
  | CurFetchall nat
  | CurFetchone nat

record ('v, 'r) driver =
  raises :: "'v call list \<Rightarrow> 'v call \<Rightarrow> exn option"
  handle :: "'v call list \<Rightarrow> nat"
  rowcount :: "'v call list \<Rightarrow> int"
  lastrowid :: "'v call list \<Rightarrow> int"
  fetchall :: "'v call list \<Rightarrow> 'r list option"
  fetchone :: "'v call list \<Rightarrow> 'r option"

datatype txn_call = Begin | Commit | Rollback

text \<open>
  The world outside the objects: the trace of driver calls, and a history variable
  \<open>txn_log\<close> that records every call of \<open>DatabaseConnection.begin\<close>, \<open>commit\<close> and
  \<open>rollback\<close> with whether it returned (\<open>True\<close>) or raised (\<open>False\<close>). The history
  variable is not in the source; no definition reads it.
\<close>

record 'v world =
  trace :: "'v call list"
  txn_log :: "(txn_call \<times> bool) list"

definition drv_ret ::
  "('v, 'r) driver \<Rightarrow> 'v call \<Rightarrow> ('v call list \<Rightarrow> 'a) \<Rightarrow> ('x \<times> 'v world, 'a) prog"
where
  "drv_ret d c f = (\<lambda>(x, w).
     ((case raises d (trace w) c of Some e \<Rightarrow> Inl e | None \<Rightarrow> Inr (f (trace w))),
      (x, w\<lparr>trace := trace w @ [c]\<rparr>)))"

definition drv :: "('v, 'r) driver \<Rightarrow> 'v call \<Rightarrow> ('x \<times> 'v world, unit) prog" where
  "drv d c = drv_ret d c (\<lambda>h. ())"

definition logged :: "txn_call \<Rightarrow> ('x \<times> 'v world, 'a) prog \<Rightarrow> ('x \<times> 'v world, 'a) prog" where
  "logged k m s =
     (case m s of (r, (x, w)) \<Rightarrow>
        (r, (x, w\<lparr>txn_log :=
                   txn_log w @ [(k, case r of Inl e \<Rightarrow> False | Inr v \<Rightarrow> True)]\<rparr>)))"

definition issued :: "'v world \<Rightarrow> 'v world \<Rightarrow> 'v call list" where
  "issued w w' = drop (length (trace w)) (trace w')"

section \<open>DatabaseConnection\<close>

record DatabaseConnection =
  pool :: nat
  conn :: nat
  autocommit :: bool
  in_transaction :: bool

type_synonym 'v scope_state = "DatabaseConnection \<times> 'v world"

definition DatabaseConnection_init :: "nat \<Rightarrow> nat \<Rightarrow> bool \<Rightarrow> DatabaseConnection" where
  "DatabaseConnection_init p c ac =
     \<lparr>pool = p, conn = c, autocommit = ac, in_transaction = False\<rparr>"

definition set_in_transaction :: "bool \<Rightarrow> ('v scope_state, unit) prog" where
  "set_in_transaction b = (\<lambda>(self, w). (Inr (), (self\<lparr>in_transaction := b\<rparr>, w)))"

definition DatabaseConnection_begin :: "('v, 'r) driver \<Rightarrow> ('v scope_state, unit) prog" where
  "DatabaseConnection_begin d =
     logged Begin (\<lambda>(self, w).
       bnd (drv d (ConnBegin (conn self))) (\<lambda>u. set_in_transaction True) (self, w))"

definition DatabaseConnection_commit :: "('v, 'r) driver \<Rightarrow> ('v scope_state, unit) prog" where
  "DatabaseConnection_commit d =
     logged Commit (\<lambda>(self, w).
       bnd (drv d (ConnCommit (conn self))) (\<lambda>u. set_in_transaction False) (self, w))"

definition DatabaseConnection_rollback :: "('v, 'r) driver \<Rightarrow> ('v scope_state, unit) prog" where
  "DatabaseConnection_rollback d =
     logged Rollback (\<lambda>(self, w).
       bnd (drv d (ConnRollback (conn self))) (\<lambda>u. set_in_transaction False) (self, w))"

definition DatabaseConnection_aenter ::
  "('v, 'r) driver \<Rightarrow> ('v scope_state, unit) prog"
where
  "DatabaseConnection_aenter d = (\<lambda>(self, w).
     if \<not> autocommit self then DatabaseConnection_begin d (self, w) else ret () (self, w))"

definition DatabaseConnection_aexit ::
  "('v, 'r) driver \<Rightarrow> exn option \<Rightarrow> ('v scope_state, unit) prog"
where
  "DatabaseConnection_aexit d exc_type =
     try_finally
       (\<lambda>(self, w).
          if in_transaction self then
            (if exc_type \<noteq> None then DatabaseConnection_rollback d (self, w)
             else DatabaseConnection_commit d (self, w))
          else ret () (self, w))
       (\<lambda>(self, w). drv d (PoolRelease (pool self) (conn self)) (self, w))"

text \<open>
  Python helpers: \<^verbatim>\<open>args or None\<close> on the tuple of positional arguments, the truth
  value of what \<^verbatim>\<open>fetchall\<close> answered (\<open>None\<close> and the empty sequence are false), and
  \<^verbatim>\<open>sep.join(xs)\<close>.
\<close>

definition args_or_None :: "'v list \<Rightarrow> 'v list option" where
  "args_or_None args = (if args = [] then None else Some args)"

definition truthy :: "'r list option \<Rightarrow> bool" where
  "truthy data = (case data of None \<Rightarrow> False | Some rs \<Rightarrow> rs \<noteq> [])"

fun str_join :: "string \<Rightarrow> string list \<Rightarrow> string" where
  "str_join sep [] = []"
| "str_join sep [x] = x"
| "str_join sep (x # y # ys) = x @ sep @ str_join sep (y # ys)"

text \<open>
  \<^verbatim>\<open>async with self.conn.cursor(kind) as cur\<close>: the cursor is closed when the block is
  left, on every path.
\<close>

definition with_cursor ::
  "('v, 'r) driver \<Rightarrow> nat \<Rightarrow> cursor_kind \<Rightarrow> ('x \<times> 'v world, 'a) prog \<Rightarrow> ('x \<times> 'v world, 'a) prog"
where
  "with_cursor d c kind body =
     async_with (drv d (CursorOpen c kind)) (\<lambda>cur exc. drv d (CursorClose c)) (\<lambda>cur. body)"

definition DatabaseConnection_query ::
  "('v, 'r) driver \<Rightarrow> string \<Rightarrow> 'v list \<Rightarrow> ('v scope_state, 'r list option) prog"
where
  "DatabaseConnection_query d sql args = (\<lambda>(self, w).
     with_cursor d (conn self) DictCursor
       (bnd (drv_ret d (CurExecute (conn self) sql (args_or_None args)) (rowcount d)) (\<lambda>n.
        bnd (drv_ret d (CurFetchall (conn self)) (fetchall d)) (\<lambda>data.
        ret (if truthy data then data else Some []))))
       (self, w))"

definition DatabaseConnection_get ::
  "('v, 'r) driver \<Rightarrow> string \<Rightarrow> 'v list \<Rightarrow> ('v scope_state, 'r option) prog"
where
  "DatabaseConnection_get d sql args = (\<lambda>(self, w).
     with_cursor d (conn self) DictCursor
       (bnd (drv_ret d (CurExecute (conn self) sql (args_or_None args)) (rowcount d)) (\<lambda>n.
        drv_ret d (CurFetchone (conn self)) (fetchone d)))
       (self, w))"

definition DatabaseConnection_execute ::
  "('v, 'r) driver \<Rightarrow> string \<Rightarrow> 'v list \<Rightarrow> ('v scope_state, int) prog"
where
  "DatabaseConnection_execute d sql args = (\<lambda>(self, w).
     with_cursor d (conn self) Cursor
       (bnd (drv_ret d (CurExecute (conn self) sql (args_or_None args)) (rowcount d)) (\<lambda>rows.
        bnd (if autocommit self then drv d (ConnCommit (conn self)) else ret ()) (\<lambda>u.
        ret rows)))
       (self, w))"

definition insert_sql :: "string \<Rightarrow> (string \<times> 'v) list \<Rightarrow> string" where
  "insert_sql table data =
     (let fields = map fst data;
          placeholders = str_join '','' (replicate (length data) ''%s'')
      in ''INSERT INTO '' @ table @ '' ('' @ str_join '','' fields @ '') VALUES (''
           @ placeholders @ '')'')"

definition DatabaseConnection_insert ::
  "('v, 'r) driver \<Rightarrow> string \<Rightarrow> (string \<times> 'v) list \<Rightarrow> ('v scope_state, int) prog"
where
  "DatabaseConnection_insert d table data = (\<lambda>(self, w).
     with_cursor d (conn self) Cursor
       (bnd (drv_ret d (CurExecute (conn self) (insert_sql table data) (Some (map snd data)))
               (rowcount d)) (\<lambda>n.
        bnd (if autocommit self then drv d (ConnCommit (conn self)) else ret ()) (\<lambda>u (x, w').
        (Inr (lastrowid d (trace w')), (x, w')))))
       (self, w))"

definition update_sql :: "string \<Rightarrow> (string \<times> 'v) list \<Rightarrow> string \<Rightarrow> string" where
  "update_sql table data wh =
     (let set_items = map (\<lambda>k. k @ ''=%s'') (map fst data)
      in ''UPDATE '' @ table @ '' SET '' @ str_join '','' set_items @ '' WHERE '' @ wh)"

definition DatabaseConnection_update ::
  "('v, 'r) driver \<Rightarrow> string \<Rightarrow> (string \<times> 'v) list \<Rightarrow> string \<Rightarrow> 'v list \<Rightarrow>
     ('v scope_state, int) prog"
where
  "DatabaseConnection_update d table data wh args =
     (let values = map snd data @ args
      in DatabaseConnection_execute d (update_sql table data wh) values)"

text \<open>
  An operation of the scope, as a caller may invoke it, and what a sequence of them does
  to the scope. A caller may catch an exception and go on, so the sequence continues from
  the state an operation leaves, however it ended.
\<close>

datatype 'v scope_op =
    OpBegin
  | OpCommit
  | OpRollback
  | OpQuery string "'v list"
  | OpGet string "'v list"
  | OpExecute string "'v list"
  | OpInsert string "(string \<times> 'v) list"
  | OpUpdate string "(string \<times> 'v) list" string "'v list"
  | OpAenter
  | OpAexit "exn option"

fun step :: "('v, 'r) driver \<Rightarrow> 'v scope_state \<Rightarrow> 'v scope_op \<Rightarrow> 'v scope_state" where
  "step d s OpBegin = snd (DatabaseConnection_begin d s)"
| "step d s OpCommit = snd (DatabaseConnection_commit d s)"
| "step d s OpRollback = snd (DatabaseConnection_rollback d s)"
| "step d s (OpQuery sql args) = snd (DatabaseConnection_query d sql args s)"
| "step d s (OpGet sql args) = snd (DatabaseConnection_get d sql args s)"
| "step d s (OpExecute sql args) = snd (DatabaseConnection_execute d sql args s)"
| "step d s (OpInsert table data) = snd (DatabaseConnection_insert d table data s)"
| "step d s (OpUpdate table data wh args) = snd (DatabaseConnection_update d table data wh args s)"
| "step d s OpAenter = snd (DatabaseConnection_aenter d s)"
| "step d s (OpAexit exc_type) = snd (DatabaseConnection_aexit d exc_type s)"

definition run_ops :: "('v, 'r) driver \<Rightarrow> 'v scope_op list \<Rightarrow> 'v scope_state \<Rightarrow> 'v scope_state" where
  "run_ops d ops s = foldl (step d) s ops"

text \<open>
  The invariant of the flag, in the words of the specification: a \<open>begin\<close> call has
  succeeded and neither \<open>commit\<close> nor \<open>rollback\<close> has run since. Among the successful
  \<open>begin\<close> calls and all \<open>commit\<close> and \<open>rollback\<close> calls, the last one is a \<open>begin\<close>.
\<close>

definition txn_open_stated :: "(txn_call \<times> bool) list \<Rightarrow> bool" where
  "txn_open_stated log =
     (case rev (filter (\<lambda>(k, ok). k \<noteq> Begin \<or> ok) log) of
        [] \<Rightarrow> False
      | (k, ok) # earlier \<Rightarrow> k = Begin)"

text \<open>
  The same with "has returned" for "has run": among the calls that returned, the last one
  is a \<open>begin\<close>.
\<close>

definition txn_open :: "(txn_call \<times> bool) list \<Rightarrow> bool" where
  "txn_open log =
     (case rev (filter (\<lambda>(k, ok). ok) log) of
        [] \<Rightarrow> False
      | (k, ok) # earlier \<Rightarrow> k = Begin)"

text \<open>
  The begin, commit and rollback calls made on the connection \<open>c\<close>, whoever made them,
  each with whether it returned: read off the calls \<open>xs\<close> issued after the calls \<open>h\<close>.
\<close>

fun txn_entry :: "('v, 'r) driver \<Rightarrow> nat \<Rightarrow> 'v call list \<Rightarrow> 'v call \<Rightarrow> (txn_call \<times> bool) list" where
  "txn_entry d c h (ConnBegin n) =
     (if n = c then [(Begin, raises d h (ConnBegin n) = None)] else [])"
| "txn_entry d c h (ConnCommit n) =
     (if n = c then [(Commit, raises d h (ConnCommit n) = None)] else [])"
| "txn_entry d c h (ConnRollback n) =
     (if n = c then [(Rollback, raises d h (ConnRollback n) = None)] else [])"
| "txn_entry d c h other = []"

fun conn_log ::
  "('v, 'r) driver \<Rightarrow> nat \<Rightarrow> 'v call list \<Rightarrow> 'v call list \<Rightarrow> (txn_call \<times> bool) list"
where
  "conn_log d c h [] = []"
| "conn_log d c h (x # xs) = txn_entry d c h x @ conn_log d c (h @ [x]) xs"

text \<open>
  \<open>execute\<close>, \<open>insert\<close> and \<open>update\<close> are the statements. A statement commits in a
  transaction when the scope's flag is true as it is called and the commit it issues on
  its connection returns. A sequence of operations is free of this when none of its
  operations, run in turn, does so.
\<close>

fun statement_op :: "'v scope_op \<Rightarrow> bool" where
  "statement_op (OpExecute sql args) = True"
| "statement_op (OpInsert table data) = True"
| "statement_op (OpUpdate table data wh args) = True"
| "statement_op other = False"

definition statement_commits_in_transaction ::
  "('v, 'r) driver \<Rightarrow> 'v scope_state \<Rightarrow> 'v scope_op \<Rightarrow> bool"
where
  "statement_commits_in_transaction d s op =
     (statement_op op \<and> in_transaction (fst s) \<and>
      (Commit, True) \<in> set (conn_log d (conn (fst s)) (trace (snd s))
                               (issued (snd s) (snd (step d s op)))))"

fun no_statement_commits_in_transaction ::
  "('v, 'r) driver \<Rightarrow> 'v scope_state \<Rightarrow> 'v scope_op list \<Rightarrow> bool"
where
  "no_statement_commits_in_transaction d s [] = True"
| "no_statement_commits_in_transaction d s (op # ops) =
     (\<not> statement_commits_in_transaction d s op \<and>
      no_statement_commits_in_transaction d (step d s op) ops)"

section \<open>AsyncDatabase\<close>

record AsyncDatabase =
  adb_pool :: "nat option"
  adb_autocommit :: bool

type_synonym 'v adb_state = "AsyncDatabase \<times> 'v world"

definition AsyncDatabase_init :: AsyncDatabase where
  "AsyncDatabase_init = \<lparr>adb_pool = None, adb_autocommit = True\<rparr>"

text \<open>
  The arguments of \<^verbatim>\<open>connect\<close>. \<open>kwargs\<close> holds the keyword arguments that match none
  of the named parameters: Python binds a keyword that matches a named parameter to that
  parameter, so none of the nine names below is ever a key of \<open>kwargs\<close>.
\<close>

record connect_args =
  host :: string
  port :: int
  user :: cfg
  password :: cfg
  db :: cfg
  charset :: string
  minsize :: int
  maxsize :: int
  autocommit_arg :: bool
  kwargs :: "(string \<times> cfg) list"

definition connect_defaults :: connect_args where
  "connect_defaults =
     \<lparr>host = ''localhost'', port = 3306, user = CNone, password = CNone, db = CNone,
      charset = ''utf8mb4'', minsize = 1, maxsize = 10, autocommit_arg = True, kwargs = []\<rparr>"

text \<open>
  A dict display \<^verbatim>\<open>{k1: v1, ..., **kwargs}\<close>: a later entry for a key that is already
  there replaces its value.
\<close>

fun dict_set :: "'k \<Rightarrow> 'a \<Rightarrow> ('k \<times> 'a) list \<Rightarrow> ('k \<times> 'a) list" where
  "dict_set k v [] = [(k, v)]"
| "dict_set k v ((k', v') # al) =
     (if k' = k then (k, v) # al else (k', v') # dict_set k v al)"

definition dict_display :: "('k \<times> 'a) list \<Rightarrow> ('k \<times> 'a) list" where
  "dict_display items = foldl (\<lambda>al (k, v). dict_set k v al) [] items"

definition pool_config :: "connect_args \<Rightarrow> (string \<times> cfg) list" where
  "pool_config a =
     dict_display
       ([(''host'', CStr (host a)), (''port'', CInt (port a)), (''user'', user a),
         (''password'', password a), (''db'', db a), (''charset'', CStr (charset a)),
         (''minsize'', CInt (minsize a)), (''maxsize'', CInt (maxsize a)),
         (''autocommit'', CBool True)] @ kwargs a)"

definition AsyncDatabase_connect :: "('v, 'r) driver \<Rightarrow> connect_args \<Rightarrow> ('v adb_state, unit) prog" where
  "AsyncDatabase_connect d a =
     bnd (drv_ret d (CreatePool (pool_config a)) (handle d)) (\<lambda>p (self, w).
       (Inr (), (self\<lparr>adb_pool := Some p, adb_autocommit := autocommit_arg a\<rparr>, w)))"

definition AsyncDatabase_get_connection ::
  "('v, 'r) driver \<Rightarrow> ('v adb_state, DatabaseConnection) prog"
where
  "AsyncDatabase_get_connection d = (\<lambda>(self, w).
     case adb_pool self of
       None \<Rightarrow> raise (RuntimeError ''Database connection pool is not initialized'') (self, w)
     | Some p \<Rightarrow>
         bnd (drv_ret d (PoolAcquire p) (handle d)) (\<lambda>c.
         bnd (drv d (ConnBegin c)) (\<lambda>u.
         bnd (drv d (ConnCommit c)) (\<lambda>u.
         ret (DatabaseConnection_init p c (adb_autocommit self))))) (self, w))"

text \<open>
  \<^verbatim>\<open>async with await self.get_connection() as db: return await body(db)\<close>. The scope is
  an object of its own; the instance and the world go on from where the scope leaves them.
\<close>

definition with_connection ::
  "('v, 'r) driver \<Rightarrow> ('v scope_state, 'a) prog \<Rightarrow> ('v adb_state, 'a) prog"
where
  "with_connection d body = (\<lambda>(self, w).
     case AsyncDatabase_get_connection d (self, w) of
       (Inl e, s) \<Rightarrow> (Inl e, s)
     | (Inr scope, (self', w')) \<Rightarrow>
         (case async_with (DatabaseConnection_aenter d) (\<lambda>u. DatabaseConnection_aexit d)
                 (\<lambda>u. body) (scope, w') of
            (r, (scope', w'')) \<Rightarrow> (r, (self', w''))))"

definition AsyncDatabase_query ::
  "('v, 'r) driver \<Rightarrow> string \<Rightarrow> 'v list \<Rightarrow> ('v adb_state, 'r list option) prog"
where
  "AsyncDatabase_query d sql args = with_connection d (DatabaseConnection_query d sql args)"

definition AsyncDatabase_get ::
  "('v, 'r) driver \<Rightarrow> string \<Rightarrow> 'v list \<Rightarrow> ('v adb_state, 'r option) prog"
where
  "AsyncDatabase_get d sql args = with_connection d (DatabaseConnection_get d sql args)"

definition AsyncDatabase_execute ::
  "('v, 'r) driver \<Rightarrow> string \<Rightarrow> 'v list \<Rightarrow> ('v adb_state, int) prog"
where
  "AsyncDatabase_execute d sql args = with_connection d (DatabaseConnection_execute d sql args)"

definition AsyncDatabase_insert ::
  "('v, 'r) driver \<Rightarrow> string \<Rightarrow> (string \<times> 'v) list \<Rightarrow> ('v adb_state, int) prog"
where
  "AsyncDatabase_insert d table data = with_connection d (DatabaseConnection_insert d table data)"

definition AsyncDatabase_update ::
  "('v, 'r) driver \<Rightarrow> string \<Rightarrow> (string \<times> 'v) list \<Rightarrow> string \<Rightarrow> 'v list \<Rightarrow>
     ('v adb_state, int) prog"
where
  "AsyncDatabase_update d table data wh args =
     with_connection d (DatabaseConnection_update d table data wh args)"

definition AsyncDatabase_close :: "('v, 'r) driver \<Rightarrow> ('v adb_state, unit) prog" where
  "AsyncDatabase_close d = (\<lambda>(self, w).
     case adb_pool self of
       None \<Rightarrow> ret () (self, w)
     | Some p \<Rightarrow>
         bnd (drv d (PoolClose p)) (\<lambda>u.
         bnd (drv d (PoolWaitClosed p)) (\<lambda>u (self', w').
         (Inr (), (self'\<lparr>adb_pool := None\<rparr>, w')))) (self, w))"

section \<open>The legacy AsyncMysqlDB\<close>

record AsyncMysqlDB =
  amdb_pool :: nat

type_synonym 'v amdb_state = "AsyncMysqlDB \<times> 'v world"

text \<open>\<^verbatim>\<open>async with self.__pool.acquire() as conn\<close>: released when the block is left.\<close>

definition with_acquire ::
  "('v, 'r) driver \<Rightarrow> nat \<Rightarrow> (nat \<Rightarrow> ('x \<times> 'v world, 'a) prog) \<Rightarrow> ('x \<times> 'v world, 'a) prog"
where
  "with_acquire d p body =
     async_with (drv_ret d (PoolAcquire p) (handle d)) (\<lambda>c exc. drv d (PoolRelease p c)) body"

definition AsyncMysqlDB_query ::
  "('v, 'r) driver \<Rightarrow> string \<Rightarrow> 'v list \<Rightarrow> ('v amdb_state, 'r list option) prog"
where
  "AsyncMysqlDB_query d sql args = (\<lambda>(self, w).
     with_acquire d (amdb_pool self) (\<lambda>c.
       with_cursor d c DictCursor
         (bnd (drv_ret d (CurExecute c sql (Some args)) (rowcount d)) (\<lambda>n.
          bnd (drv_ret d (CurFetchall c) (fetchall d)) (\<lambda>data.
          ret (if truthy data then data else Some [])))))
       (self, w))"

text \<open>
  \<^verbatim>\<open>'%s' % x\<close> on the WHERE value of \<^verbatim>\<open>update_table\<close>, a \<^verbatim>\<open>str\<close>, an \<^verbatim>\<open>int\<close> (a
  \<^verbatim>\<open>bool\<close> is one in Python, and prints as \<open>True\<close> or \<open>False\<close>) or a \<^verbatim>\<open>float\<close>: a
  string as it is, an integer in decimal. How Python prints a float is a parameter \<open>fl\<close>.
\<close>

datatype 'f where_value = WStr string | WInt int | WBool bool | WFloat 'f

definition digit_char :: "nat \<Rightarrow> char" where
  "digit_char n = ''0123456789'' ! n"

fun str_nat :: "nat \<Rightarrow> string" where
  "str_nat n = (if n < 10 then [digit_char n] else str_nat (n div 10) @ [digit_char (n mod 10)])"

declare str_nat.simps [simp del]

definition str_int :: "int \<Rightarrow> string" where
  "str_int i = (if i < 0 then CHR ''-'' # str_nat (nat (- i)) else str_nat (nat i))"

fun py_str :: "('f \<Rightarrow> string) \<Rightarrow> 'f where_value \<Rightarrow> string" where
  "py_str fl (WStr s) = s"
| "py_str fl (WInt i) = str_int i"
| "py_str fl (WBool b) = (if b then ''True'' else ''False'')"
| "py_str fl (WFloat x) = fl x"

text \<open>
  Reading a decimal numeral back, for stating what \<open>str_int\<close> prints: the value of a
  string of digits, and of an optional minus sign followed by digits.
\<close>

definition digit_value :: "char \<Rightarrow> nat" where
  "digit_value ch = of_char ch - 48"

definition decimal_value :: "string \<Rightarrow> nat" where
  "decimal_value s = foldl (\<lambda>n ch. 10 * n + digit_value ch) 0 s"

definition int_of_text :: "string \<Rightarrow> int" where
  "int_of_text s =
     (case s of
        [] \<Rightarrow> 0
      | ch # rest \<Rightarrow>
          if ch = CHR ''-'' then - int (decimal_value rest) else int (decimal_value s))"

text \<open>The loop of \<^verbatim>\<open>update_table\<close> over \<^verbatim>\<open>updates.items()\<close>.\<close>

fun update_table_loop ::
  "(string \<times> 'v) list \<Rightarrow> string list \<Rightarrow> 'v list \<Rightarrow> string list \<times> 'v list"
where
  "update_table_loop [] upsets values = (upsets, values)"
| "update_table_loop ((k, v) # rest) upsets values =
     update_table_loop rest (upsets @ [k @ ''=%s'']) (values @ [v])"

definition update_table_sql ::
  "('f \<Rightarrow> string) \<Rightarrow> string \<Rightarrow> (string \<times> 'v) list \<Rightarrow> string \<Rightarrow> 'f where_value \<Rightarrow> string \<times> 'v list"
where
  "update_table_sql fl table_name updates field_where value_where =
     (case update_table_loop updates [] [] of
        (upsets, values) \<Rightarrow>
          (''UPDATE '' @ table_name @ '' SET '' @ str_join '','' upsets @ '' WHERE ''
             @ field_where @ ''='' @ [CHR 0x22] @ py_str fl value_where @ [CHR 0x22],
           values))"

definition AsyncMysqlDB_update_table ::
  "('v, 'r) driver \<Rightarrow> ('f \<Rightarrow> string) \<Rightarrow> string \<Rightarrow> (string \<times> 'v) list \<Rightarrow> string \<Rightarrow>
     'f where_value \<Rightarrow> ('v amdb_state, int) prog"
where
  "AsyncMysqlDB_update_table d fl table_name updates field_where value_where = (\<lambda>(self, w).
     case update_table_sql fl table_name updates field_where value_where of
       (sql, values) \<Rightarrow>
         with_acquire d (amdb_pool self) (\<lambda>c.
           with_cursor d c Cursor
             (drv_ret d (CurExecute c sql (Some values)) (rowcount d)))
           (self, w))"

section \<open>Concrete drivers\<close>

text \<open>
  A driver on which every call returns, one whose \<open>commit\<close> raises, and one whose
  \<open>begin\<close> raises once a \<open>begin\<close> has been issued before (the first \<open>begin\<close> is the one
  \<^verbatim>\<open>get_connection\<close> issues).
\<close>

definition ok_driver :: "(int, (string \<times> int) list) driver" where
  "ok_driver =
     \<lparr>raises = (\<lambda>h c. None), handle = (\<lambda>h. 7), rowcount = (\<lambda>h. 1), lastrowid = (\<lambda>h. 42),
      fetchall = (\<lambda>h. Some [[(''id'', 1)], [(''id'', 2)]]), fetchone = (\<lambda>h. Some [(''id'', 1)])\<rparr>"

definition commit_fails :: "(int, (string \<times> int) list) driver" where
  "commit_fails =
     ok_driver\<lparr>raises := (\<lambda>h c. case c of ConnCommit n \<Rightarrow> Some (OtherError ''commit'') | _ \<Rightarrow> None)\<rparr>"

definition begin_fails :: "(int, (string \<times> int) list) driver" where
  "begin_fails =
     ok_driver\<lparr>raises := (\<lambda>h c.
        if c = ConnBegin 7 \<and> ConnBegin 7 \<in> set h then Some (OtherError ''begin'') else None)\<rparr>"

definition world0 :: "int world" where
  "world0 = \<lparr>trace = [], txn_log = []\<rparr>"

section \<open>Observations on results and traces\<close>

definition exc_of :: "exn + 'a \<Rightarrow> exn option" where
  "exc_of r = (case r of Inl e \<Rightarrow> Some e | Inr v \<Rightarrow> None)"

fun is_txn_end :: "'v call \<Rightarrow> bool" where
  "is_txn_end (ConnCommit c) = True"
| "is_txn_end (ConnRollback c) = True"
| "is_txn_end other = False"

fun is_release :: "'v call \<Rightarrow> bool" where
  "is_release (PoolRelease p c) = True"
| "is_release other = False"

text \<open>The flag agrees with the history of \<open>begin\<close>, \<open>commit\<close> and \<open>rollback\<close> calls.\<close>

definition flag_ok :: "'v scope_state \<Rightarrow> bool" where
  "flag_ok s = (in_transaction (fst s) = txn_open (txn_log (snd s)))"

text \<open>
  The calls a statement issues: the cursor is opened; if that returns, the statement is
  executed and the cursor closed; between the two, under autocommit, a commit, if the
  statement returned.
\<close>

definition statement_calls ::
  "('v, 'r) driver \<Rightarrow> 'v call list \<Rightarrow> nat \<Rightarrow> bool \<Rightarrow> string \<Rightarrow> 'v list option \<Rightarrow> 'v call list"
where
  "statement_calls d h c ac sql params =
     CursorOpen c Cursor #
       (if raises d h (CursorOpen c Cursor) \<noteq> None then []
        else CurExecute c sql params #
          (if raises d (h @ [CursorOpen c Cursor]) (CurExecute c sql params) \<noteq> None then []
           else if ac then [ConnCommit c] else [])
          @ [CursorClose c])"

text \<open>
  The flag agrees with what has been called on the connection \<open>c\<close> of the scope since
  the calls \<open>h0\<close>.
\<close>

definition conn_flag_ok :: "('v, 'r) driver \<Rightarrow> nat \<Rightarrow> 'v call list \<Rightarrow> 'v scope_state \<Rightarrow> bool" where
  "conn_flag_ok d c h0 s =
     (conn (fst s) = c \<and> take (length h0) (trace (snd s)) = h0 \<and>
      in_transaction (fst s) =
        txn_open (conn_log d c h0 (drop (length h0) (trace (snd s)))))"

text \<open>
  The cursor opens and the statement executes without raising, on the connection \<open>c\<close>
  after the calls \<open>h\<close>.
\<close>

definition executed ::
  "('v, 'r) driver \<Rightarrow> 'v call list \<Rightarrow> nat \<Rightarrow> string \<Rightarrow> 'v list option \<Rightarrow> bool"
where
  "executed d h c sql params =
     (raises d h (CursorOpen c Cursor) = None \<and>
      raises d (h @ [CursorOpen c Cursor]) (CurExecute c sql params) = None)"

text \<open>
  The SET clause in the words of the specification: one \<open>k=%s\<close> term for each key, in
  the order of the mapping, separated by commas.
\<close>

fun spec_set_clause :: "(string \<times> 'v) list \<Rightarrow> string" where
  "spec_set_clause [] = []"
| "spec_set_clause [(k, v)] = k @ ''=%s''"
| "spec_set_clause ((k, v) # kv # rest) = k @ ''=%s,'' @ spec_set_clause (kv # rest)"

text \<open>The rows a result of \<^verbatim>\<open>fetchall\<close> holds: none for \<open>None\<close>.\<close>

definition rows_of :: "'r list option \<Rightarrow> 'r list" where
  "rows_of data = (case data of None \<Rightarrow> [] | Some rs \<Rightarrow> rs)"

section \<open>Results and final states of the combinators\<close>

lemma fst_drv_ret:
  "fst (drv_ret d c f s) =
     (case raises d (trace (snd s)) c of Some e \<Rightarrow> Inl e | None \<Rightarrow> Inr (f (trace (snd s))))"
  by (simp add: drv_ret_def split_beta)

lemma snd_drv_ret:
  "snd (drv_ret d c f s) = (fst s, (snd s)\<lparr>trace := trace (snd s) @ [c]\<rparr>)"
  by (simp add: drv_ret_def split_beta)

lemma fst_drv:
  "fst (drv d c s) = (case raises d (trace (snd s)) c of Some e \<Rightarrow> Inl e | None \<Rightarrow> Inr ())"
  by (simp add: drv_def fst_drv_ret)

lemma snd_drv: "snd (drv d c s) = (fst s, (snd s)\<lparr>trace := trace (snd s) @ [c]\<rparr>)"
  by (simp add: drv_def snd_drv_ret)

lemma fst_bnd:
  "fst (bnd m f s) = (case fst (m s) of Inl e \<Rightarrow> Inl e | Inr x \<Rightarrow> fst (f x (snd (m s))))"
  by (simp add: bnd_def split: prod.split sum.split)

lemma snd_bnd:
  "snd (bnd m f s) = (case fst (m s) of Inl e \<Rightarrow> snd (m s) | Inr x \<Rightarrow> snd (f x (snd (m s))))"
  by (simp add: bnd_def split: prod.split sum.split)

lemma snd_try_finally: "snd (try_finally body fin s) = snd (fin (snd (body s)))"
  by (simp add: try_finally_def split: prod.split sum.split)

lemma fst_try_finally:
  "fst (try_finally body fin s) =
     (case fst (fin (snd (body s))) of Inl e \<Rightarrow> Inl e | Inr u \<Rightarrow> fst (body s))"
  by (simp add: try_finally_def split: prod.split sum.split)

lemma snd_async_with:
  "snd (async_with enter exit body s) =
     (case fst (enter s) of
        Inl e \<Rightarrow> snd (enter s)
      | Inr x \<Rightarrow> snd (exit x (exc_of (fst (body x (snd (enter s))))) (snd (body x (snd (enter s))))))"
  by (simp add: async_with_def bnd_def exc_of_def split: prod.split sum.split)

lemma fst_async_with:
  "fst (async_with enter exit body s) =
     (case fst (enter s) of
        Inl e \<Rightarrow> Inl e
      | Inr x \<Rightarrow>
          (case fst (exit x (exc_of (fst (body x (snd (enter s))))) (snd (body x (snd (enter s))))) of
             Inl e' \<Rightarrow> Inl e'
           | Inr u \<Rightarrow> fst (body x (snd (enter s)))))"
  by (simp add: async_with_def bnd_def exc_of_def split: prod.split sum.split)

section \<open>begin, commit, rollback and the exit handler\<close>

lemma snd_commit:
  "snd (DatabaseConnection_commit d s) =
     ((fst s)\<lparr>in_transaction :=
         (if raises d (trace (snd s)) (ConnCommit (conn (fst s))) = None then False
          else in_transaction (fst s))\<rparr>,
      (snd s)\<lparr>trace := trace (snd s) @ [ConnCommit (conn (fst s))],
        txn_log := txn_log (snd s) @
          [(Commit, raises d (trace (snd s)) (ConnCommit (conn (fst s))) = None)]\<rparr>)"
  by (simp add: DatabaseConnection_commit_def logged_def bnd_def drv_def drv_ret_def
      set_in_transaction_def split_beta split: option.split)

lemma snd_rollback:
  "snd (DatabaseConnection_rollback d s) =
     ((fst s)\<lparr>in_transaction :=
         (if raises d (trace (snd s)) (ConnRollback (conn (fst s))) = None then False
          else in_transaction (fst s))\<rparr>,
      (snd s)\<lparr>trace := trace (snd s) @ [ConnRollback (conn (fst s))],
        txn_log := txn_log (snd s) @
          [(Rollback, raises d (trace (snd s)) (ConnRollback (conn (fst s))) = None)]\<rparr>)"
  by (simp add: DatabaseConnection_rollback_def logged_def bnd_def drv_def drv_ret_def
      set_in_transaction_def split_beta split: option.split)

lemma snd_begin:
  "snd (DatabaseConnection_begin d s) =
     ((fst s)\<lparr>in_transaction :=
         (if raises d (trace (snd s)) (ConnBegin (conn (fst s))) = None then True
          else in_transaction (fst s))\<rparr>,
      (snd s)\<lparr>trace := trace (snd s) @ [ConnBegin (conn (fst s))],
        txn_log := txn_log (snd s) @
          [(Begin, raises d (trace (snd s)) (ConnBegin (conn (fst s))) = None)]\<rparr>)"
  by (simp add: DatabaseConnection_begin_def logged_def bnd_def drv_def drv_ret_def
      set_in_transaction_def split_beta split: option.split)

lemma fst_begin:
  "fst (DatabaseConnection_begin d s) =
     (case raises d (trace (snd s)) (ConnBegin (conn (fst s))) of Some e \<Rightarrow> Inl e | None \<Rightarrow> Inr ())"
  by (simp add: DatabaseConnection_begin_def logged_def bnd_def drv_def drv_ret_def
      set_in_transaction_def split_beta split: option.split)

lemma snd_aexit:
  "snd (DatabaseConnection_aexit d exc s) =
     (let s1 = (if in_transaction (fst s) then
                  (if exc \<noteq> None then snd (DatabaseConnection_rollback d s)
                   else snd (DatabaseConnection_commit d s))
                else s)
      in (fst s1, (snd s1)\<lparr>trace := trace (snd s1) @ [PoolRelease (pool (fst s1)) (conn (fst s1))]\<rparr>))"
  by (simp add: DatabaseConnection_aexit_def snd_try_finally ret_def snd_drv split_beta Let_def)

lemma aexit_trace:
  "trace (snd (snd (DatabaseConnection_aexit d exc (self, w)))) =
   trace w @
     (if in_transaction self then
        (if exc \<noteq> None then [ConnRollback (conn self)] else [ConnCommit (conn self)])
      else [])
     @ [PoolRelease (pool self) (conn self)]"
  by (simp add: snd_aexit snd_commit snd_rollback Let_def)

lemma aexit_issued:
  "issued w (snd (snd (DatabaseConnection_aexit d exc (self, w)))) =
     (if in_transaction self then
        (if exc \<noteq> None then [ConnRollback (conn self)] else [ConnCommit (conn self)])
      else [])
     @ [PoolRelease (pool self) (conn self)]"
  by (simp add: issued_def aexit_trace)

text \<open>
  C1. Whatever the driver does, the commits and rollbacks that \<^verbatim>\<open>__aexit__\<close> issues are:
  one rollback and no commit when a transaction is open and the exit comes from an
  exception; one commit and no rollback when a transaction is open and the exit is clean;
  none at all when no transaction is open.
\<close>

theorem aexit_commit_or_rollback:
  "filter is_txn_end (issued w (snd (snd (DatabaseConnection_aexit d exc_type (self, w))))) =
     (if in_transaction self then
        (if exc_type \<noteq> None then [ConnRollback (conn self)] else [ConnCommit (conn self)])
      else [])"
  by (simp add: aexit_issued)

theorem aexit_commit_or_rollback_witness:
  "filter is_txn_end (issued world0 (snd (snd (DatabaseConnection_aexit commit_fails
       (Some (OtherError ''body''))
       (\<lparr>pool = 1, conn = 7, autocommit = False, in_transaction = True\<rparr>, world0))))) =
     [ConnRollback 7]"
  using aexit_commit_or_rollback [of world0 commit_fails "Some (OtherError ''body'')"
      "\<lparr>pool = 1, conn = 7, autocommit = False, in_transaction = True\<rparr>"]
  by simp

text \<open>
  C2. Whatever the driver does (so also when the commit or the rollback raises) and
  whether the body raised or not, the calls that \<^verbatim>\<open>__aexit__\<close> issues are its commits
  and rollbacks followed by one release of the held connection to its pool: the release
  is issued exactly once, and last.
\<close>

theorem aexit_releases_once_last:
  "trace (snd (snd (DatabaseConnection_aexit d exc_type (self, w)))) =
     trace w @ issued w (snd (snd (DatabaseConnection_aexit d exc_type (self, w)))) \<and>
   issued w (snd (snd (DatabaseConnection_aexit d exc_type (self, w)))) =
     filter is_txn_end (issued w (snd (snd (DatabaseConnection_aexit d exc_type (self, w)))))
       @ [PoolRelease (pool self) (conn self)] \<and>
   filter is_release (issued w (snd (snd (DatabaseConnection_aexit d exc_type (self, w))))) =
     [PoolRelease (pool self) (conn self)]"
  by (simp add: aexit_issued aexit_trace)

theorem aexit_releases_once_last_witness:
  "issued world0 (snd (snd (DatabaseConnection_aexit commit_fails None
       (\<lparr>pool = 1, conn = 7, autocommit = False, in_transaction = True\<rparr>, world0)))) =
     [ConnCommit 7, PoolRelease 1 7]"
  using aexit_releases_once_last [of commit_fails None
      "\<lparr>pool = 1, conn = 7, autocommit = False, in_transaction = True\<rparr>" world0]
  by (simp add: aexit_issued)

section \<open>The transaction flag\<close>

text \<open>Queries and statements leave the flag and the history alone.\<close>

lemma query_keeps:
  "fst (snd (DatabaseConnection_query d sql args s)) = fst s \<and>
   txn_log (snd (snd (DatabaseConnection_query d sql args s))) = txn_log (snd s)"
  by (simp add: DatabaseConnection_query_def with_cursor_def snd_async_with fst_bnd snd_bnd
      fst_drv_ret snd_drv_ret fst_drv snd_drv ret_def split_beta split: option.split sum.split)

lemma get_keeps:
  "fst (snd (DatabaseConnection_get d sql args s)) = fst s \<and>
   txn_log (snd (snd (DatabaseConnection_get d sql args s))) = txn_log (snd s)"
  by (simp add: DatabaseConnection_get_def with_cursor_def snd_async_with fst_bnd snd_bnd
      fst_drv_ret snd_drv_ret fst_drv snd_drv ret_def split_beta split: option.split sum.split)

lemma execute_keeps:
  "fst (snd (DatabaseConnection_execute d sql args s)) = fst s \<and>
   txn_log (snd (snd (DatabaseConnection_execute d sql args s))) = txn_log (snd s)"
  by (simp add: DatabaseConnection_execute_def with_cursor_def snd_async_with fst_bnd snd_bnd
      fst_drv_ret snd_drv_ret fst_drv snd_drv ret_def split_beta split: option.split sum.split)

lemma insert_keeps:
  "fst (snd (DatabaseConnection_insert d table data s)) = fst s \<and>
   txn_log (snd (snd (DatabaseConnection_insert d table data s))) = txn_log (snd s)"
  by (simp add: DatabaseConnection_insert_def with_cursor_def snd_async_with fst_bnd snd_bnd
      fst_drv_ret snd_drv_ret fst_drv snd_drv ret_def split_beta split: option.split sum.split)

lemma update_keeps:
  "fst (snd (DatabaseConnection_update d table data wh args s)) = fst s \<and>
   txn_log (snd (snd (DatabaseConnection_update d table data wh args s))) = txn_log (snd s)"
  by (simp add: DatabaseConnection_update_def execute_keeps Let_def)

lemma txn_open_snoc:
  "txn_open (log @ [(k, ok)]) = (if ok then k = Begin else txn_open log)"
  by (simp add: txn_open_def)

lemma txn_open_stated_snoc:
  "txn_open_stated (log @ [(k, ok)]) = (if k \<noteq> Begin \<or> ok then k = Begin else txn_open_stated log)"
  by (simp add: txn_open_stated_def)

text \<open>The flag follows the scope's own \<open>begin\<close>, \<open>commit\<close> and \<open>rollback\<close> calls.\<close>

lemma begin_ok: "flag_ok s \<Longrightarrow> flag_ok (snd (DatabaseConnection_begin d s))"
  by (simp add: flag_ok_def snd_begin txn_open_snoc)

lemma commit_ok: "flag_ok s \<Longrightarrow> flag_ok (snd (DatabaseConnection_commit d s))"
  by (simp add: flag_ok_def snd_commit txn_open_snoc)

lemma rollback_ok: "flag_ok s \<Longrightarrow> flag_ok (snd (DatabaseConnection_rollback d s))"
  by (simp add: flag_ok_def snd_rollback txn_open_snoc)

lemma aenter_ok: "flag_ok s \<Longrightarrow> flag_ok (snd (DatabaseConnection_aenter d s))"
  by (simp add: DatabaseConnection_aenter_def split_beta ret_def begin_ok)

lemma release_ok:
  "flag_ok s \<Longrightarrow> flag_ok (fst s, (snd s)\<lparr>trace := t\<rparr>)"
  by (simp add: flag_ok_def)

lemma aexit_ok: "flag_ok s \<Longrightarrow> flag_ok (snd (DatabaseConnection_aexit d exc s))"
  by (simp add: snd_aexit Let_def release_ok commit_ok rollback_ok)

lemma step_ok: "flag_ok s \<Longrightarrow> flag_ok (step d s op)"
  by (cases op)
    (simp_all add: begin_ok commit_ok rollback_ok aenter_ok aexit_ok,
     simp_all add: flag_ok_def query_keeps get_keeps execute_keeps insert_keeps update_keeps)

lemma run_ops_ok: "flag_ok s \<Longrightarrow> flag_ok (run_ops d ops s)"
  unfolding run_ops_def by (induction ops arbitrary: s) (simp_all add: step_ok)

text \<open>
  Both readings of the invariant, said with the positions in the history: some \<open>begin\<close>
  returned, and after it no \<open>commit\<close> or \<open>rollback\<close> returned (\<open>txn_open\<close>), or none
  was called at all (\<open>txn_open_stated\<close>).
\<close>

lemma ex_split_snoc:
  "(\<exists>pre post. xs @ [x] = pre @ y # post \<and> Q post) \<longleftrightarrow>
     (x = y \<and> Q []) \<or> (\<exists>pre post. xs = pre @ y # post \<and> Q (post @ [x]))"
proof
  assume "\<exists>pre post. xs @ [x] = pre @ y # post \<and> Q post"
  then obtain pre post where eq: "xs @ [x] = pre @ y # post" and q: "Q post" by blast
  show "(x = y \<and> Q []) \<or> (\<exists>pre post. xs = pre @ y # post \<and> Q (post @ [x]))"
  proof (cases post rule: rev_cases)
    case Nil
    with eq q show ?thesis by simp
  next
    case (snoc post' z)
    with eq have "xs = pre @ y # post'" and "z = x" by simp_all
    with q snoc show ?thesis by blast
  qed
next
  assume "(x = y \<and> Q []) \<or> (\<exists>pre post. xs = pre @ y # post \<and> Q (post @ [x]))"
  then show "\<exists>pre post. xs @ [x] = pre @ y # post \<and> Q post"
  proof
    assume "x = y \<and> Q []"
    then have "xs @ [x] = xs @ y # [] \<and> Q []" by simp
    then show ?thesis by blast
  next
    assume "\<exists>pre post. xs = pre @ y # post \<and> Q (post @ [x])"
    then obtain pre post where "xs = pre @ y # post" and "Q (post @ [x])" by blast
    then have "xs @ [x] = pre @ y # (post @ [x]) \<and> Q (post @ [x])" by simp
    then show ?thesis by blast
  qed
qed

lemma txn_open_iff:
  "txn_open log \<longleftrightarrow>
     (\<exists>pre post. log = pre @ (Begin, True) # post \<and> (\<forall>e\<in>set post. fst e \<noteq> Begin \<longrightarrow> \<not> snd e))"
proof (induction log rule: rev_induct)
  case Nil
  then show ?case by (simp add: txn_open_def)
next
  case (snoc x xs)
  obtain k ok where x: "x = (k, ok)" by (cases x)
  have "(\<exists>pre post. xs @ [x] = pre @ (Begin, True) # post \<and> (\<forall>e\<in>set post. fst e \<noteq> Begin \<longrightarrow> \<not> snd e))
      \<longleftrightarrow> x = (Begin, True) \<or>
        ((\<exists>pre post. xs = pre @ (Begin, True) # post \<and> (\<forall>e\<in>set post. fst e \<noteq> Begin \<longrightarrow> \<not> snd e))
         \<and> (k \<noteq> Begin \<longrightarrow> \<not> ok))"
    by (simp add: ex_split_snoc x) blast
  also have "\<dots> \<longleftrightarrow> x = (Begin, True) \<or> (txn_open xs \<and> (k \<noteq> Begin \<longrightarrow> \<not> ok))"
    by (simp only: snoc.IH)
  finally show ?case using x by (auto simp: txn_open_snoc)
qed

lemma txn_open_stated_iff:
  "txn_open_stated log \<longleftrightarrow>
     (\<exists>pre post. log = pre @ (Begin, True) # post \<and> (\<forall>e\<in>set post. fst e = Begin))"
proof (induction log rule: rev_induct)
  case Nil
  then show ?case by (simp add: txn_open_stated_def)
next
  case (snoc x xs)
  obtain k ok where x: "x = (k, ok)" by (cases x)
  have "(\<exists>pre post. xs @ [x] = pre @ (Begin, True) # post \<and> (\<forall>e\<in>set post. fst e = Begin))
      \<longleftrightarrow> x = (Begin, True) \<or>
        ((\<exists>pre post. xs = pre @ (Begin, True) # post \<and> (\<forall>e\<in>set post. fst e = Begin)) \<and> k = Begin)"
    by (simp add: ex_split_snoc x) blast
  also have "\<dots> \<longleftrightarrow> x = (Begin, True) \<or> (txn_open_stated xs \<and> k = Begin)"
    by (simp only: snoc.IH)
  finally show ?case using x by (auto simp: txn_open_stated_snoc)
qed

section \<open>The flag and the calls on the connection\<close>

lemma conn_log_append:
  "conn_log d c h (xs @ ys) = conn_log d c h xs @ conn_log d c (h @ xs) ys"
  by (induction xs arbitrary: h) simp_all

lemma conn_flag_ok_extend:
  assumes "conn_flag_ok d c h0 s"
    and "conn (fst s') = c"
    and "trace (snd s') = trace (snd s) @ delta"
    and "in_transaction (fst s') =
           txn_open (conn_log d c h0 (drop (length h0) (trace (snd s)))
                     @ conn_log d c (trace (snd s)) delta)"
  shows "conn_flag_ok d c h0 s'"
proof -
  from assms(1) have pre: "take (length h0) (trace (snd s)) = h0"
    by (simp add: conn_flag_ok_def)
  then have "length (take (length h0) (trace (snd s))) = length h0"
    by simp
  then have len: "length h0 \<le> length (trace (snd s))"
    by (simp add: min_def split: if_splits)
  from pre have whole: "h0 @ drop (length h0) (trace (snd s)) = trace (snd s)"
    by (metis append_take_drop_id)
  have "conn_log d c h0 (drop (length h0) (trace (snd s) @ delta)) =
        conn_log d c h0 (drop (length h0) (trace (snd s))) @ conn_log d c (trace (snd s)) delta"
    using len by (simp add: conn_log_append whole)
  with assms pre len show ?thesis
    by (simp add: conn_flag_ok_def)
qed

lemma begin_conn_ok:
  "conn_flag_ok d c h0 s \<Longrightarrow> conn_flag_ok d c h0 (snd (DatabaseConnection_begin d s))"
  by (rule conn_flag_ok_extend [where delta = "[ConnBegin c]"])
    (auto simp: snd_begin conn_flag_ok_def txn_open_snoc)

lemma commit_conn_ok:
  "conn_flag_ok d c h0 s \<Longrightarrow> conn_flag_ok d c h0 (snd (DatabaseConnection_commit d s))"
  by (rule conn_flag_ok_extend [where delta = "[ConnCommit c]"])
    (auto simp: snd_commit conn_flag_ok_def txn_open_snoc)

lemma rollback_conn_ok:
  "conn_flag_ok d c h0 s \<Longrightarrow> conn_flag_ok d c h0 (snd (DatabaseConnection_rollback d s))"
  by (rule conn_flag_ok_extend [where delta = "[ConnRollback c]"])
    (auto simp: snd_rollback conn_flag_ok_def txn_open_snoc)

lemma aenter_conn_ok:
  "conn_flag_ok d c h0 s \<Longrightarrow> conn_flag_ok d c h0 (snd (DatabaseConnection_aenter d s))"
  by (simp add: DatabaseConnection_aenter_def split_beta ret_def begin_conn_ok)

lemma release_conn_ok:
  "conn_flag_ok d c h0 s \<Longrightarrow>
   conn_flag_ok d c h0 (fst s, (snd s)\<lparr>trace := trace (snd s) @ [PoolRelease p n]\<rparr>)"
  by (rule conn_flag_ok_extend [where delta = "[PoolRelease p n]"])
    (auto simp: conn_flag_ok_def)

lemma aexit_conn_ok:
  "conn_flag_ok d c h0 s \<Longrightarrow> conn_flag_ok d c h0 (snd (DatabaseConnection_aexit d exc s))"
  by (simp add: snd_aexit Let_def release_conn_ok commit_conn_ok rollback_conn_ok)

lemma query_trace:
  "trace (snd (snd (DatabaseConnection_query d sql args s))) =
     trace (snd s) @ CursorOpen (conn (fst s)) DictCursor #
       (if raises d (trace (snd s)) (CursorOpen (conn (fst s)) DictCursor) \<noteq> None then []
        else CurExecute (conn (fst s)) sql (args_or_None args) #
          (if raises d (trace (snd s) @ [CursorOpen (conn (fst s)) DictCursor])
                (CurExecute (conn (fst s)) sql (args_or_None args)) \<noteq> None then []
           else [CurFetchall (conn (fst s))])
          @ [CursorClose (conn (fst s))])"
  by (simp add: DatabaseConnection_query_def with_cursor_def snd_async_with fst_bnd snd_bnd
      fst_drv_ret snd_drv_ret fst_drv snd_drv ret_def split_beta split: option.split sum.split)

lemma get_trace:
  "trace (snd (snd (DatabaseConnection_get d sql args s))) =
     trace (snd s) @ CursorOpen (conn (fst s)) DictCursor #
       (if raises d (trace (snd s)) (CursorOpen (conn (fst s)) DictCursor) \<noteq> None then []
        else CurExecute (conn (fst s)) sql (args_or_None args) #
          (if raises d (trace (snd s) @ [CursorOpen (conn (fst s)) DictCursor])
                (CurExecute (conn (fst s)) sql (args_or_None args)) \<noteq> None then []
           else [CurFetchone (conn (fst s))])
          @ [CursorClose (conn (fst s))])"
  by (simp add: DatabaseConnection_get_def with_cursor_def snd_async_with fst_bnd snd_bnd
      fst_drv_ret snd_drv_ret fst_drv snd_drv ret_def split_beta split: option.split sum.split)

lemma query_conn_ok:
  "conn_flag_ok d c h0 s \<Longrightarrow> conn_flag_ok d c h0 (snd (DatabaseConnection_query d sql args s))"
  by (rule conn_flag_ok_extend [OF _ _ query_trace])
    (auto simp: query_keeps conn_flag_ok_def)

lemma get_conn_ok:
  "conn_flag_ok d c h0 s \<Longrightarrow> conn_flag_ok d c h0 (snd (DatabaseConnection_get d sql args s))"
  by (rule conn_flag_ok_extend [OF _ _ get_trace])
    (auto simp: get_keeps conn_flag_ok_def)

lemma snd_execute:
  "snd (DatabaseConnection_execute d sql args s) =
     (fst s, (snd s)\<lparr>trace := trace (snd s) @
        statement_calls d (trace (snd s)) (conn (fst s)) (autocommit (fst s)) sql
          (args_or_None args)\<rparr>)"
  by (simp add: DatabaseConnection_execute_def with_cursor_def snd_async_with fst_bnd snd_bnd
      fst_drv_ret snd_drv_ret fst_drv snd_drv ret_def split_beta statement_calls_def
      split: option.split sum.split)

lemma snd_insert:
  "snd (DatabaseConnection_insert d table data s) =
     (fst s, (snd s)\<lparr>trace := trace (snd s) @
        statement_calls d (trace (snd s)) (conn (fst s)) (autocommit (fst s))
          (insert_sql table data) (Some (map snd data))\<rparr>)"
  by (simp add: DatabaseConnection_insert_def with_cursor_def snd_async_with fst_bnd snd_bnd
      fst_drv_ret snd_drv_ret fst_drv snd_drv ret_def split_beta statement_calls_def
      split: option.split sum.split)

lemma snd_update:
  "snd (DatabaseConnection_update d table data wh args s) =
     (fst s, (snd s)\<lparr>trace := trace (snd s) @
        statement_calls d (trace (snd s)) (conn (fst s)) (autocommit (fst s))
          (update_sql table data wh) (args_or_None (map snd data @ args))\<rparr>)"
  by (simp add: DatabaseConnection_update_def Let_def snd_execute)

lemma statement_calls_log:
  "conn_log d c h (statement_calls d h c ac sql params) = [] \<or>
   (\<exists>b. conn_log d c h (statement_calls d h c ac sql params) = [(Commit, b)])"
  by (simp add: statement_calls_def)

lemma statement_conn_ok:
  assumes ok: "conn_flag_ok d c h0 s"
    and st: "s' = (fst s, (snd s)\<lparr>trace := trace (snd s) @ delta\<rparr>)"
    and shape: "conn_log d c (trace (snd s)) delta = [] \<or>
                (\<exists>b. conn_log d c (trace (snd s)) delta = [(Commit, b)])"
    and free: "\<not> (in_transaction (fst s) \<and>
                  (Commit, True) \<in> set (conn_log d c (trace (snd s)) (issued (snd s) (snd s'))))"
  shows "conn_flag_ok d c h0 s'"
proof (rule conn_flag_ok_extend [OF ok, where delta = delta])
  show "conn (fst s') = c" using ok st by (simp add: conn_flag_ok_def)
  show "trace (snd s') = trace (snd s) @ delta" using st by simp
  have iss: "issued (snd s) (snd s') = delta" using st by (simp add: issued_def)
  from ok have flag: "in_transaction (fst s) =
      txn_open (conn_log d c h0 (drop (length h0) (trace (snd s))))"
    by (simp add: conn_flag_ok_def)
  from shape show "in_transaction (fst s') =
      txn_open (conn_log d c h0 (drop (length h0) (trace (snd s)))
                @ conn_log d c (trace (snd s)) delta)"
  proof
    assume "conn_log d c (trace (snd s)) delta = []"
    with flag st show ?thesis by simp
  next
    assume "\<exists>b. conn_log d c (trace (snd s)) delta = [(Commit, b)]"
    then obtain b where b: "conn_log d c (trace (snd s)) delta = [(Commit, b)]" by blast
    show ?thesis
    proof (cases b)
      case True
      with free b iss have "\<not> in_transaction (fst s)" by simp
      with True b st show ?thesis by (simp add: txn_open_snoc)
    next
      case False
      with b flag st show ?thesis by (simp add: txn_open_snoc)
    qed
  qed
qed

lemma step_conn_ok:
  assumes ok: "conn_flag_ok d c h0 s" and free: "\<not> statement_commits_in_transaction d s op"
  shows "conn_flag_ok d c h0 (step d s op)"
proof -
  from ok have c: "conn (fst s) = c" by (simp add: conn_flag_ok_def)
  have stmt: "conn_flag_ok d c h0 (step d s op)"
    if "statement_op op"
      and "step d s op = (fst s, (snd s)\<lparr>trace := trace (snd s) @
             statement_calls d (trace (snd s)) c ac sql params\<rparr>)"
    for ac sql params
  proof (rule statement_conn_ok [OF ok that(2) statement_calls_log])
    show "\<not> (in_transaction (fst s) \<and>
        (Commit, True) \<in> set (conn_log d c (trace (snd s)) (issued (snd s) (snd (step d s op)))))"
      using free c that(1) by (simp add: statement_commits_in_transaction_def)
  qed
  show ?thesis
  proof (cases op)
    case (OpExecute sql args)
    then show ?thesis using stmt c by (simp add: snd_execute)
  next
    case (OpInsert table data)
    then show ?thesis using stmt c by (simp add: snd_insert)
  next
    case (OpUpdate table data wh args)
    then show ?thesis using stmt c by (simp add: snd_update)
  qed (simp_all add: ok begin_conn_ok commit_conn_ok rollback_conn_ok aenter_conn_ok aexit_conn_ok
      query_conn_ok get_conn_ok)
qed

lemma run_ops_conn_ok:
  "conn_flag_ok d c h0 s \<Longrightarrow> no_statement_commits_in_transaction d s ops \<Longrightarrow>
   conn_flag_ok d c h0 (run_ops d ops s)"
  unfolding run_ops_def by (induction ops arbitrary: s) (simp_all add: step_conn_ok)

lemma autocommit_then_begin_state:
  "run_ops ok_driver [OpAenter, OpExecute ''DELETE FROM t'' [], OpBegin]
     (DatabaseConnection_init 1 7 True, world0) =
   (\<lparr>pool = 1, conn = 7, autocommit = True, in_transaction = True\<rparr>,
    \<lparr>trace = [CursorOpen 7 Cursor, CurExecute 7 ''DELETE FROM t'' None, ConnCommit 7,
              CursorClose 7, ConnBegin 7],
      txn_log = [(Begin, True)]\<rparr>)"
  by (simp add: run_ops_def snd_begin snd_execute DatabaseConnection_aenter_def ret_def
      DatabaseConnection_init_def world0_def ok_driver_def args_or_None_def statement_calls_def)

lemma commit_raises_state:
  "run_ops commit_fails [OpBegin, OpCommit] (DatabaseConnection_init 1 7 False, world0) =
   (\<lparr>pool = 1, conn = 7, autocommit = False, in_transaction = True\<rparr>,
    \<lparr>trace = [ConnBegin 7, ConnCommit 7], txn_log = [(Begin, True), (Commit, False)]\<rparr>)"
  by (simp add: run_ops_def snd_begin snd_commit DatabaseConnection_init_def world0_def
      commit_fails_def ok_driver_def)

text \<open>
  C4, as stated: the flag is true if and only if a \<open>begin\<close> call has succeeded and neither
  \<open>commit\<close> nor \<open>rollback\<close> has run since. It fails when a \<open>commit\<close> raises: the
  \<open>commit\<close> has run, and the flag is still true, because \<open>commit\<close> and \<open>rollback\<close> clear
  the flag only after the driver's call has returned.

  C4, amended: on every driver, after every sequence of operations (\<open>begin\<close>, \<open>commit\<close>,
  \<open>rollback\<close>, \<open>query\<close>, \<open>get\<close>, \<open>execute\<close>, \<open>insert\<close>, \<open>update\<close>, \<open>__aenter__\<close>,
  \<open>__aexit__\<close>) on a freshly constructed scope in which no statement commits in a
  transaction, the flag is true if and only if a \<open>begin\<close> on the scope's connection has
  returned and neither a \<open>commit\<close> nor a \<open>rollback\<close> on it has returned since.
\<close>

theorem in_transaction_invariant:
  assumes "no_statement_commits_in_transaction d (DatabaseConnection_init p c ac, w) ops"
  shows "in_transaction (fst (run_ops d ops (DatabaseConnection_init p c ac, w))) =
     txn_open (conn_log d c (trace w)
       (issued w (snd (run_ops d ops (DatabaseConnection_init p c ac, w)))))"
proof -
  have "conn_flag_ok d c (trace w) (DatabaseConnection_init p c ac, w)"
    by (simp add: conn_flag_ok_def DatabaseConnection_init_def txn_open_def)
  then have "conn_flag_ok d c (trace w) (run_ops d ops (DatabaseConnection_init p c ac, w))"
    using assms by (rule run_ops_conn_ok)
  then show ?thesis by (simp add: conn_flag_ok_def issued_def)
qed

theorem in_transaction_stated_counterexample:
  "no_statement_commits_in_transaction commit_fails (DatabaseConnection_init 1 7 False, world0)
     [OpBegin, OpCommit] \<and>
   in_transaction (fst (run_ops commit_fails [OpBegin, OpCommit] (DatabaseConnection_init 1 7 False, world0)))
   \<noteq> txn_open_stated (conn_log commit_fails 7 (trace world0)
        (issued world0 (snd (run_ops commit_fails [OpBegin, OpCommit]
           (DatabaseConnection_init 1 7 False, world0)))))"
  unfolding commit_raises_state
  by (simp add: txn_open_stated_def issued_def world0_def commit_fails_def ok_driver_def
      statement_commits_in_transaction_def)

theorem in_transaction_invariant_witness:
  "no_statement_commits_in_transaction ok_driver (DatabaseConnection_init 1 7 True, world0)
     [OpAenter, OpExecute ''DELETE FROM t'' [], OpBegin] \<and>
   in_transaction (fst (run_ops ok_driver [OpAenter, OpExecute ''DELETE FROM t'' [], OpBegin]
       (DatabaseConnection_init 1 7 True, world0))) =
   txn_open [(Commit, True), (Begin, True)]"
proof -
  have free: "no_statement_commits_in_transaction ok_driver (DatabaseConnection_init 1 7 True, world0)
     [OpAenter, OpExecute ''DELETE FROM t'' [], OpBegin]"
    by (simp add: statement_commits_in_transaction_def DatabaseConnection_aenter_def ret_def
        DatabaseConnection_init_def)
  show ?thesis
    using free in_transaction_invariant [OF free]
    unfolding autocommit_then_begin_state
    by (simp add: issued_def world0_def ok_driver_def)
qed

text \<open>
  A statement that commits in a transaction: under autocommit, \<open>begin\<close> and then
  \<open>execute\<close>. The commit of \<open>execute\<close> returns and the flag stays true.
\<close>

lemma statement_commit_keeps_flag:
  "statement_commits_in_transaction ok_driver
     (snd (DatabaseConnection_begin ok_driver (DatabaseConnection_init 1 7 True, world0)))
     (OpExecute ''DELETE FROM t'' []) \<and>
   run_ops ok_driver [OpBegin, OpExecute ''DELETE FROM t'' []]
     (DatabaseConnection_init 1 7 True, world0) =
   (\<lparr>pool = 1, conn = 7, autocommit = True, in_transaction = True\<rparr>,
    \<lparr>trace = [ConnBegin 7, CursorOpen 7 Cursor, CurExecute 7 ''DELETE FROM t'' None,
              ConnCommit 7, CursorClose 7],
      txn_log = [(Begin, True)]\<rparr>)"
  by (simp add: run_ops_def statement_commits_in_transaction_def snd_begin snd_execute issued_def
      DatabaseConnection_init_def world0_def ok_driver_def args_or_None_def statement_calls_def)

section \<open>Entering the scope\<close>

lemma aenter_begin_raises:
  "\<not> autocommit self \<Longrightarrow> raises d (trace w) (ConnBegin (conn self)) = Some e \<Longrightarrow>
   DatabaseConnection_aenter d (self, w) =
     (Inl e, (self, w\<lparr>trace := trace w @ [ConnBegin (conn self)],
                      txn_log := txn_log w @ [(Begin, False)]\<rparr>))"
  by (simp add: DatabaseConnection_aenter_def DatabaseConnection_begin_def logged_def bnd_def
      drv_def drv_ret_def)

text \<open>
  C3. With autocommit false \<^verbatim>\<open>__aenter__\<close> calls \<open>begin\<close> at once, and the error of a
  failing \<open>begin\<close> reaches the caller; but the connection is not released.
  \<^verbatim>\<open>__aenter__\<close> has no handler of its own, and \<^verbatim>\<open>async with\<close> does not run
  \<^verbatim>\<open>__aexit__\<close> when entering raised. Here \<^verbatim>\<open>AsyncDatabase.execute\<close> runs with
  autocommit false on a driver whose second \<open>begin\<close> raises: the calls issued are the
  acquire, the begin and commit of \<^verbatim>\<open>get_connection\<close> and the failing begin, and no
  release.
\<close>

theorem begin_failure_leaks_connection:
  "AsyncDatabase_execute begin_fails ''SELECT 1'' []
     (\<lparr>adb_pool = Some 1, adb_autocommit = False\<rparr>, world0) =
   (Inl (OtherError ''begin''),
    (\<lparr>adb_pool = Some 1, adb_autocommit = False\<rparr>,
     \<lparr>trace = [PoolAcquire 1, ConnBegin 7, ConnCommit 7, ConnBegin 7],
      txn_log = [(Begin, False)]\<rparr>))"
  by (simp add: AsyncDatabase_execute_def with_connection_def AsyncDatabase_get_connection_def
      async_with_def DatabaseConnection_aenter_def DatabaseConnection_begin_def logged_def bnd_def
      drv_def drv_ret_def ret_def DatabaseConnection_init_def begin_fails_def ok_driver_def world0_def)

section \<open>Statements under autocommit\<close>

lemma execute_trace:
  "trace (snd (snd (DatabaseConnection_execute d sql args (self, w)))) =
     trace w @ CursorOpen (conn self) Cursor #
       (if raises d (trace w) (CursorOpen (conn self) Cursor) \<noteq> None then []
        else CurExecute (conn self) sql (args_or_None args) #
          (if raises d (trace w @ [CursorOpen (conn self) Cursor])
                (CurExecute (conn self) sql (args_or_None args)) \<noteq> None then []
           else if autocommit self then [ConnCommit (conn self)] else [])
          @ [CursorClose (conn self)])"
  by (simp add: DatabaseConnection_execute_def with_cursor_def snd_async_with fst_bnd snd_bnd
      fst_drv_ret snd_drv_ret fst_drv snd_drv ret_def split: option.split sum.split)

lemma insert_trace:
  "trace (snd (snd (DatabaseConnection_insert d table data (self, w)))) =
     trace w @ CursorOpen (conn self) Cursor #
       (if raises d (trace w) (CursorOpen (conn self) Cursor) \<noteq> None then []
        else CurExecute (conn self) (insert_sql table data) (Some (map snd data)) #
          (if raises d (trace w @ [CursorOpen (conn self) Cursor])
                (CurExecute (conn self) (insert_sql table data) (Some (map snd data))) \<noteq> None then []
           else if autocommit self then [ConnCommit (conn self)] else [])
          @ [CursorClose (conn self)])"
  by (simp add: DatabaseConnection_insert_def with_cursor_def snd_async_with fst_bnd snd_bnd
      fst_drv_ret snd_drv_ret fst_drv snd_drv ret_def split_beta split: option.split sum.split)

lemma execute_issued:
  "issued w (snd (snd (DatabaseConnection_execute d sql args (self, w)))) =
     CursorOpen (conn self) Cursor #
       (if raises d (trace w) (CursorOpen (conn self) Cursor) \<noteq> None then []
        else CurExecute (conn self) sql (args_or_None args) #
          (if raises d (trace w @ [CursorOpen (conn self) Cursor])
                (CurExecute (conn self) sql (args_or_None args)) \<noteq> None then []
           else if autocommit self then [ConnCommit (conn self)] else [])
          @ [CursorClose (conn self)])"
  by (simp add: issued_def execute_trace)

lemma insert_issued:
  "issued w (snd (snd (DatabaseConnection_insert d table data (self, w)))) =
     CursorOpen (conn self) Cursor #
       (if raises d (trace w) (CursorOpen (conn self) Cursor) \<noteq> None then []
        else CurExecute (conn self) (insert_sql table data) (Some (map snd data)) #
          (if raises d (trace w @ [CursorOpen (conn self) Cursor])
                (CurExecute (conn self) (insert_sql table data) (Some (map snd data))) \<noteq> None then []
           else if autocommit self then [ConnCommit (conn self)] else [])
          @ [CursorClose (conn self)])"
  by (simp add: issued_def insert_trace)

lemma execute_commits:
  "(autocommit self \<and> executed d (trace w) (conn self) sql (args_or_None args) \<longrightarrow>
      issued w (snd (snd (DatabaseConnection_execute d sql args (self, w)))) =
        [CursorOpen (conn self) Cursor, CurExecute (conn self) sql (args_or_None args),
         ConnCommit (conn self), CursorClose (conn self)]) \<and>
   (\<not> autocommit self \<longrightarrow>
      filter is_txn_end (issued w (snd (snd (DatabaseConnection_execute d sql args (self, w))))) = [])"
  by (simp add: execute_issued executed_def)

lemma insert_commits:
  "(autocommit self \<and> executed d (trace w) (conn self) (insert_sql table data) (Some (map snd data)) \<longrightarrow>
      issued w (snd (snd (DatabaseConnection_insert d table data (self, w)))) =
        [CursorOpen (conn self) Cursor,
         CurExecute (conn self) (insert_sql table data) (Some (map snd data)),
         ConnCommit (conn self), CursorClose (conn self)]) \<and>
   (\<not> autocommit self \<longrightarrow>
      filter is_txn_end (issued w (snd (snd (DatabaseConnection_insert d table data (self, w))))) = [])"
  by (simp add: insert_issued executed_def)

text \<open>
  C5. With autocommit true, \<open>execute\<close>, \<open>insert\<close> and \<open>update\<close> issue, once the cursor is
  open and the statement has executed, a commit on the held connection as the very next
  call. With autocommit false none of them issues a commit (or a rollback), whatever the
  driver does.
\<close>

theorem autocommit_commits_each_statement:
  "(autocommit self \<and> executed d (trace w) (conn self) sql (args_or_None args) \<longrightarrow>
      issued w (snd (snd (DatabaseConnection_execute d sql args (self, w)))) =
        [CursorOpen (conn self) Cursor, CurExecute (conn self) sql (args_or_None args),
         ConnCommit (conn self), CursorClose (conn self)]) \<and>
   (autocommit self \<and> executed d (trace w) (conn self) (insert_sql table data) (Some (map snd data)) \<longrightarrow>
      issued w (snd (snd (DatabaseConnection_insert d table data (self, w)))) =
        [CursorOpen (conn self) Cursor,
         CurExecute (conn self) (insert_sql table data) (Some (map snd data)),
         ConnCommit (conn self), CursorClose (conn self)]) \<and>
   (autocommit self \<and>
    executed d (trace w) (conn self) (update_sql table data wh) (args_or_None (map snd data @ args)) \<longrightarrow>
      issued w (snd (snd (DatabaseConnection_update d table data wh args (self, w)))) =
        [CursorOpen (conn self) Cursor,
         CurExecute (conn self) (update_sql table data wh) (args_or_None (map snd data @ args)),
         ConnCommit (conn self), CursorClose (conn self)]) \<and>
   (\<not> autocommit self \<longrightarrow>
      filter is_txn_end (issued w (snd (snd (DatabaseConnection_execute d sql args (self, w))))) = [] \<and>
      filter is_txn_end (issued w (snd (snd (DatabaseConnection_insert d table data (self, w))))) = [] \<and>
      filter is_txn_end
        (issued w (snd (snd (DatabaseConnection_update d table data wh args (self, w))))) = [])"
  using execute_commits [of self d w sql args] insert_commits [of self d w table data]
    execute_commits [of self d w "update_sql table data wh" "map snd data @ args"]
  by (simp add: DatabaseConnection_update_def Let_def)

theorem autocommit_commits_each_statement_witness:
  "issued world0 (snd (snd (DatabaseConnection_execute ok_driver ''DELETE FROM t WHERE id = %s'' [3]
      (\<lparr>pool = 1, conn = 7, autocommit = True, in_transaction = False\<rparr>, world0)))) =
     [CursorOpen 7 Cursor, CurExecute 7 ''DELETE FROM t WHERE id = %s'' (Some [3]),
      ConnCommit 7, CursorClose 7] \<and>
   filter is_txn_end (issued world0 (snd (snd (DatabaseConnection_insert ok_driver ''users'' [(''age'', 31)]
      (\<lparr>pool = 1, conn = 7, autocommit = False, in_transaction = True\<rparr>, world0))))) = []"
  using autocommit_commits_each_statement [where self = "\<lparr>pool = 1, conn = 7, autocommit = True, in_transaction = False\<rparr>"
      and d = ok_driver and w = world0 and sql = "''DELETE FROM t WHERE id = %s''" and args = "[3]"
      and table = "''users''" and data = "[(''age'', 31)]" and wh = "''id = %s''"]
    autocommit_commits_each_statement [where self = "\<lparr>pool = 1, conn = 7, autocommit = False, in_transaction = True\<rparr>"
      and d = ok_driver and w = world0 and sql = "''DELETE FROM t WHERE id = %s''" and args = "[3]"
      and table = "''users''" and data = "[(''age'', 31)]" and wh = "''id = %s''"]
  by (simp add: executed_def ok_driver_def world0_def args_or_None_def)

section \<open>The statement built by update\<close>

lemma set_clause_join:
  "str_join '','' (map (\<lambda>k. k @ ''=%s'') (map fst data)) = spec_set_clause data"
  by (induction data rule: spec_set_clause.induct) simp_all

lemma update_sql_spec:
  "update_sql table data wh =
     ''UPDATE '' @ table @ '' SET '' @ spec_set_clause data @ '' WHERE '' @ wh"
  by (simp add: update_sql_def set_clause_join Let_def del: map_map)

text \<open>
  C6. For a non-empty \<open>updates\<close> mapping, \<open>update\<close> executes (once the cursor is open)
  the statement \<open>UPDATE <table> SET k=%s,... WHERE <where>\<close>, with one \<open>k=%s\<close> term for
  each key in the order of the mapping, and binds the values of the mapping in that order
  followed by the WHERE arguments.
\<close>

theorem update_statement_and_parameters:
  assumes "data \<noteq> []" and "raises d (trace w) (CursorOpen (conn self) Cursor) = None"
  shows "take 2 (issued w (snd (snd (DatabaseConnection_update d table data wh args (self, w))))) =
     [CursorOpen (conn self) Cursor,
      CurExecute (conn self)
        (''UPDATE '' @ table @ '' SET '' @ spec_set_clause data @ '' WHERE '' @ wh)
        (Some (map snd data @ args))]"
  using assms
  by (simp add: DatabaseConnection_update_def Let_def execute_issued update_sql_spec args_or_None_def)

theorem update_statement_and_parameters_witness:
  "[(''age'', 31), (''status'', 5)] \<noteq> ([] :: (string \<times> int) list) \<and>
   raises ok_driver (trace world0) (CursorOpen 7 Cursor) = None \<and>
   take 2 (issued world0 (snd (snd (DatabaseConnection_update ok_driver ''users''
      [(''age'', 31), (''status'', 5)] ''id = %s'' [9]
      (\<lparr>pool = 1, conn = 7, autocommit = False, in_transaction = True\<rparr>, world0))))) =
     [CursorOpen 7 Cursor,
      CurExecute 7 ''UPDATE users SET age=%s,status=%s WHERE id = %s'' (Some [31, 5, 9])]"
  using update_statement_and_parameters [where data = "[(''age'', 31), (''status'', 5)]"
      and d = ok_driver and w = world0
      and self = "\<lparr>pool = 1, conn = 7, autocommit = False, in_transaction = True\<rparr>"
      and table = "''users''" and wh = "''id = %s''" and args = "[9]"]
  by (simp add: ok_driver_def world0_def)

section \<open>The legacy update_table\<close>

lemma update_table_loop_eq:
  "update_table_loop updates upsets vals =
     (upsets @ map (\<lambda>k. k @ ''=%s'') (map fst updates), vals @ map snd updates)"
  by (induction updates arbitrary: upsets vals) auto

lemma update_table_sql_eq:
  "update_table_sql fl table_name updates field_where value_where =
     (''UPDATE '' @ table_name @ '' SET '' @ spec_set_clause updates @ '' WHERE '' @ field_where
        @ ''='' @ [CHR 0x22] @ py_str fl value_where @ [CHR 0x22],
      map snd updates)"
  by (simp add: update_table_sql_def update_table_loop_eq set_clause_join del: map_map)

lemma update_table_trace:
  "trace (snd (snd (AsyncMysqlDB_update_table d fl table_name updates field_where value_where (self, w)))) =
     trace w @ PoolAcquire (amdb_pool self) #
       (if raises d (trace w) (PoolAcquire (amdb_pool self)) \<noteq> None then []
        else CursorOpen (handle d (trace w)) Cursor #
          (if raises d (trace w @ [PoolAcquire (amdb_pool self)])
                (CursorOpen (handle d (trace w)) Cursor) \<noteq> None then []
           else [CurExecute (handle d (trace w))
                   (fst (update_table_sql fl table_name updates field_where value_where))
                   (Some (snd (update_table_sql fl table_name updates field_where value_where))),
                 CursorClose (handle d (trace w))])
          @ [PoolRelease (amdb_pool self) (handle d (trace w))])"
  by (simp add: AsyncMysqlDB_update_table_def with_acquire_def with_cursor_def snd_async_with
      fst_async_with fst_drv_ret snd_drv_ret fst_drv snd_drv split_beta
      split: option.split sum.split)

text \<open>What \<open>str_int\<close> prints reads back as the integer.\<close>

lemma digit_char_value: "n < 10 \<Longrightarrow> digit_value (digit_char n) = n \<and> digit_char n \<noteq> CHR ''-''"
proof -
  assume "n < 10"
  then have "n \<in> {0, 1, 2, 3, 4, 5, 6, 7, 8, 9}"
    by auto
  then show ?thesis
    by (auto simp: digit_char_def digit_value_def)
qed

lemma decimal_value_snoc: "decimal_value (s @ [ch]) = 10 * decimal_value s + digit_value ch"
  by (simp add: decimal_value_def)

lemma decimal_value_str_nat: "decimal_value (str_nat n) = n"
proof (induction n rule: str_nat.induct)
  case (1 n)
  show ?case
  proof (cases "n < 10")
    case True
    then show ?thesis
      using digit_char_value [of n] by (simp add: str_nat.simps [of n] decimal_value_def)
  next
    case False
    then have "decimal_value (str_nat n) = 10 * (n div 10) + n mod 10"
      using "1.IH" digit_char_value [of "n mod 10"]
      by (simp add: str_nat.simps [of n] decimal_value_snoc)
    then show ?thesis by simp
  qed
qed

lemma str_nat_head: "\<exists>ch rest. str_nat n = ch # rest \<and> ch \<noteq> CHR ''-''"
proof (induction n rule: str_nat.induct)
  case (1 n)
  show ?case
  proof (cases "n < 10")
    case True
    then show ?thesis
      using digit_char_value [of n] by (simp add: str_nat.simps [of n])
  next
    case False
    with "1.IH" obtain ch rest where "str_nat (n div 10) = ch # rest" and "ch \<noteq> CHR ''-''"
      by blast
    with False show ?thesis by (simp add: str_nat.simps [of n])
  qed
qed

lemma int_of_text_str_int: "int_of_text (str_int i) = i"
proof (cases "i < 0")
  case True
  then show ?thesis
    by (simp add: str_int_def int_of_text_def decimal_value_str_nat)
next
  case False
  obtain ch rest where h: "str_nat (nat i) = ch # rest" and "ch \<noteq> CHR ''-''"
    using str_nat_head [of "nat i"] by blast
  then have "int_of_text (str_nat (nat i)) = int (decimal_value (str_nat (nat i)))"
    by (simp add: int_of_text_def)
  with False show ?thesis
    by (simp add: str_int_def decimal_value_str_nat)
qed

text \<open>
  C7. The legacy \<^verbatim>\<open>update_table\<close> writes the WHERE value into the text of the statement,
  between double quotes after \<open><field>=\<close>: a string character for character, an integer
  as its decimal numeral, a boolean as \<open>True\<close> or \<open>False\<close>, a float as Python prints it.
  The statement it executes is that text, and the parameters it binds are the SET values
  of the mapping, in order, and nothing else.
\<close>

theorem update_table_interpolates_where_value:
  "update_table_sql fl table_name updates field_where (WStr s) =
     (''UPDATE '' @ table_name @ '' SET '' @ spec_set_clause updates @ '' WHERE '' @ field_where
        @ ''='' @ [CHR 0x22] @ s @ [CHR 0x22],
      map snd updates) \<and>
   update_table_sql fl table_name updates field_where (WInt i) =
     (''UPDATE '' @ table_name @ '' SET '' @ spec_set_clause updates @ '' WHERE '' @ field_where
        @ ''='' @ [CHR 0x22] @ str_int i @ [CHR 0x22],
      map snd updates) \<and>
   int_of_text (str_int i) = i \<and>
   update_table_sql fl table_name updates field_where (WBool b) =
     (''UPDATE '' @ table_name @ '' SET '' @ spec_set_clause updates @ '' WHERE '' @ field_where
        @ ''='' @ [CHR 0x22] @ (if b then ''True'' else ''False'') @ [CHR 0x22],
      map snd updates) \<and>
   update_table_sql fl table_name updates field_where (WFloat x) =
     (''UPDATE '' @ table_name @ '' SET '' @ spec_set_clause updates @ '' WHERE '' @ field_where
        @ ''='' @ [CHR 0x22] @ fl x @ [CHR 0x22],
      map snd updates) \<and>
   (raises d (trace w) (PoolAcquire (amdb_pool self)) = None \<and>
    raises d (trace w @ [PoolAcquire (amdb_pool self)]) (CursorOpen (handle d (trace w)) Cursor) = None
    \<longrightarrow>
    issued w (snd (snd (AsyncMysqlDB_update_table d fl table_name updates field_where value_where (self, w)))) =
      [PoolAcquire (amdb_pool self),
       CursorOpen (handle d (trace w)) Cursor,
       CurExecute (handle d (trace w))
         (fst (update_table_sql fl table_name updates field_where value_where))
         (Some (map snd updates)),
       CursorClose (handle d (trace w)),
       PoolRelease (amdb_pool self) (handle d (trace w))])"
  by (simp add: issued_def update_table_trace update_table_sql_eq int_of_text_str_int)

theorem update_table_interpolates_where_value_witness:
  "issued world0 (snd (snd (AsyncMysqlDB_update_table ok_driver (\<lambda>x::unit. ''0.0'') ''user''
      [(''user_name'', 1), (''user_phone'', 2)] ''id''
      (WStr (''1'' @ [CHR 0x22] @ '' OR '' @ [CHR 0x22] @ ''1'' @ [CHR 0x22] @ ''='' @ [CHR 0x22] @ ''1''))
      (\<lparr>amdb_pool = 1\<rparr>, world0)))) =
     [PoolAcquire 1, CursorOpen 7 Cursor,
      CurExecute 7
        (''UPDATE user SET user_name=%s,user_phone=%s WHERE id='' @ [CHR 0x22] @ ''1'' @ [CHR 0x22]
           @ '' OR '' @ [CHR 0x22] @ ''1'' @ [CHR 0x22] @ ''='' @ [CHR 0x22] @ ''1'' @ [CHR 0x22])
        (Some [1, 2]),
      CursorClose 7, PoolRelease 1 7] \<and>
   fst (update_table_sql (\<lambda>x::unit. ''0.0'') ''user'' [(''user_name'', 1::int)] ''id'' (WInt (- 12))) =
     ''UPDATE user SET user_name=%s WHERE id='' @ [CHR 0x22] @ ''-12'' @ [CHR 0x22]"
  using update_table_interpolates_where_value [where d = ok_driver and w = world0
      and self = "\<lparr>amdb_pool = 1\<rparr>" and fl = "\<lambda>x::unit. ''0.0''" and table_name = "''user''"
      and updates = "[(''user_name'', 1), (''user_phone'', 2)]" and field_where = "''id''"
      and value_where = "WStr (''1'' @ [CHR 0x22] @ '' OR '' @ [CHR 0x22] @ ''1'' @ [CHR 0x22] @ ''='' @ [CHR 0x22] @ ''1'')"
      and s = "''1'' @ [CHR 0x22] @ '' OR '' @ [CHR 0x22] @ ''1'' @ [CHR 0x22] @ ''='' @ [CHR 0x22] @ ''1''"
      and i = "- 12" and b = True and x = "()"]
    update_table_interpolates_where_value [where d = ok_driver and w = world0
      and self = "\<lparr>amdb_pool = 1\<rparr>" and fl = "\<lambda>x::unit. ''0.0''" and table_name = "''user''"
      and updates = "[(''user_name'', 1::int)]" and field_where = "''id''"
      and value_where = "WInt (- 12)" and s = "''''" and i = "- 12" and b = True and x = "()"]
  by (simp add: ok_driver_def world0_def str_int_def str_nat.simps [of 12] str_nat.simps [of "Suc 0"]
      digit_char_def)

section \<open>Unconnected instances\<close>

lemma get_connection_unconnected:
  "adb_pool self = None \<Longrightarrow>
   AsyncDatabase_get_connection d (self, w) =
     (Inl (RuntimeError ''Database connection pool is not initialized''), (self, w))"
  by (simp add: AsyncDatabase_get_connection_def raise_def)

lemma with_connection_unconnected:
  "adb_pool self = None \<Longrightarrow>
   with_connection d body (self, w) =
     (Inl (RuntimeError ''Database connection pool is not initialized''), (self, w))"
  by (simp add: with_connection_def get_connection_unconnected)

text \<open>
  C9. On an instance whose pool is \<open>None\<close>, \<^verbatim>\<open>get_connection\<close>, \<open>query\<close>, \<open>get\<close>,
  \<open>execute\<close>, \<open>insert\<close> and \<open>update\<close> raise the \<^verbatim>\<open>RuntimeError\<close> that says the pool is
  not initialized; the instance is unchanged and no driver call is issued.
\<close>

theorem unconnected_operations_fail:
  assumes "adb_pool self = None"
  shows "AsyncDatabase_get_connection d (self, w) =
       (Inl (RuntimeError ''Database connection pool is not initialized''), (self, w)) \<and>
     AsyncDatabase_query d sql args (self, w) =
       (Inl (RuntimeError ''Database connection pool is not initialized''), (self, w)) \<and>
     AsyncDatabase_get d sql args (self, w) =
       (Inl (RuntimeError ''Database connection pool is not initialized''), (self, w)) \<and>
     AsyncDatabase_execute d sql args (self, w) =
       (Inl (RuntimeError ''Database connection pool is not initialized''), (self, w)) \<and>
     AsyncDatabase_insert d table data (self, w) =
       (Inl (RuntimeError ''Database connection pool is not initialized''), (self, w)) \<and>
     AsyncDatabase_update d table data wh args (self, w) =
       (Inl (RuntimeError ''Database connection pool is not initialized''), (self, w))"
  using assms
  by (simp add: get_connection_unconnected with_connection_unconnected AsyncDatabase_query_def
      AsyncDatabase_get_def AsyncDatabase_execute_def AsyncDatabase_insert_def AsyncDatabase_update_def)

theorem unconnected_operations_fail_witness:
  "adb_pool AsyncDatabase_init = None \<and>
   AsyncDatabase_insert ok_driver ''users'' [(''age'', 31)] (AsyncDatabase_init, world0) =
     (Inl (RuntimeError ''Database connection pool is not initialized''), (AsyncDatabase_init, world0))"
  using unconnected_operations_fail [where self = AsyncDatabase_init and d = ok_driver and w = world0
      and table = "''users''" and data = "[(''age'', 31)]"]
  by (simp add: AsyncDatabase_init_def)

section \<open>What query returns\<close>

lemma data_or_empty: "(if truthy data then data else Some []) = Some (rows_of data)"
  by (cases data) (auto simp: truthy_def rows_of_def)

lemma DatabaseConnection_query_result:
  "fst (DatabaseConnection_query d sql args (self, w)) = Inr r \<longrightarrow>
   r = Some (rows_of (fetchall d
         (trace w @ [CursorOpen (conn self) DictCursor,
                     CurExecute (conn self) sql (args_or_None args)])))"
  by (simp add: DatabaseConnection_query_def with_cursor_def fst_async_with fst_bnd snd_bnd
      fst_drv_ret snd_drv_ret fst_drv snd_drv ret_def data_or_empty
      split: option.split sum.split)

lemma DatabaseConnection_query_returns:
  "\<forall>h c. raises d h c = None \<Longrightarrow>
   fst (DatabaseConnection_query d sql args (self, w)) =
     Inr (Some (rows_of (fetchall d
         (trace w @ [CursorOpen (conn self) DictCursor,
                     CurExecute (conn self) sql (args_or_None args)]))))"
  by (simp add: DatabaseConnection_query_def with_cursor_def fst_async_with fst_bnd snd_bnd
      fst_drv_ret snd_drv_ret fst_drv snd_drv ret_def data_or_empty)

lemma AsyncMysqlDB_query_result:
  "fst (AsyncMysqlDB_query d sql args (self, w)) = Inr r \<longrightarrow>
   r = Some (rows_of (fetchall d
         (trace w @ [PoolAcquire (amdb_pool self), CursorOpen (handle d (trace w)) DictCursor,
                     CurExecute (handle d (trace w)) sql (Some args)])))"
  by (simp add: AsyncMysqlDB_query_def with_acquire_def with_cursor_def fst_async_with
      snd_async_with fst_bnd snd_bnd
      fst_drv_ret snd_drv_ret fst_drv snd_drv ret_def data_or_empty
      split: option.split sum.split)

lemma AsyncMysqlDB_query_returns:
  "\<forall>h c. raises d h c = None \<Longrightarrow>
   fst (AsyncMysqlDB_query d sql args (self, w)) =
     Inr (Some (rows_of (fetchall d
         (trace w @ [PoolAcquire (amdb_pool self), CursorOpen (handle d (trace w)) DictCursor,
                     CurExecute (handle d (trace w)) sql (Some args)]))))"
  by (simp add: AsyncMysqlDB_query_def with_acquire_def with_cursor_def fst_async_with
      snd_async_with fst_bnd snd_bnd
      fst_drv_ret snd_drv_ret fst_drv snd_drv ret_def data_or_empty)

text \<open>
  C8. Both \<^verbatim>\<open>AsyncMysqlDB.query\<close> and \<^verbatim>\<open>DatabaseConnection.query\<close>, for every statement
  and parameter list: whenever the call returns, its value is the list of the rows that
  \<^verbatim>\<open>fetchall\<close> answered after the statement was executed, the empty list when it
  answered \<open>None\<close> or no rows, and never \<open>None\<close>; and the call does return when no driver
  call raises.
\<close>

theorem query_returns_rows_never_None:
  "(fst (DatabaseConnection_query d sql args (self, w)) = Inr r \<longrightarrow>
      r = Some (rows_of (fetchall d
            (trace w @ [CursorOpen (conn self) DictCursor,
                        CurExecute (conn self) sql (args_or_None args)])))) \<and>
   (fst (AsyncMysqlDB_query d sql args (legacy, w)) = Inr r' \<longrightarrow>
      r' = Some (rows_of (fetchall d
            (trace w @ [PoolAcquire (amdb_pool legacy), CursorOpen (handle d (trace w)) DictCursor,
                        CurExecute (handle d (trace w)) sql (Some args)])))) \<and>
   ((\<forall>h c. raises d h c = None) \<longrightarrow>
      fst (DatabaseConnection_query d sql args (self, w)) =
        Inr (Some (rows_of (fetchall d
            (trace w @ [CursorOpen (conn self) DictCursor,
                        CurExecute (conn self) sql (args_or_None args)])))) \<and>
      fst (AsyncMysqlDB_query d sql args (legacy, w)) =
        Inr (Some (rows_of (fetchall d
            (trace w @ [PoolAcquire (amdb_pool legacy), CursorOpen (handle d (trace w)) DictCursor,
                        CurExecute (handle d (trace w)) sql (Some args)])))))"
  using DatabaseConnection_query_result [of d sql args self w r]
    AsyncMysqlDB_query_result [of d sql args legacy w r']
    DatabaseConnection_query_returns [of d sql args self w]
    AsyncMysqlDB_query_returns [of d sql args legacy w]
  by blast

theorem query_returns_rows_never_None_witness:
  "(\<forall>h c. raises (ok_driver\<lparr>fetchall := \<lambda>h. None\<rparr>) h c = None) \<and>
   fst (DatabaseConnection_query (ok_driver\<lparr>fetchall := \<lambda>h. None\<rparr>) ''SELECT * FROM t'' []
      (\<lparr>pool = 1, conn = 7, autocommit = True, in_transaction = False\<rparr>, world0)) = Inr (Some []) \<and>
   fst (AsyncMysqlDB_query ok_driver ''SELECT * FROM t'' [] (\<lparr>amdb_pool = 1\<rparr>, world0)) =
     Inr (Some [[(''id'', 1)], [(''id'', 2)]])"
  using query_returns_rows_never_None [where d = "ok_driver\<lparr>fetchall := \<lambda>h. None\<rparr>"
      and sql = "''SELECT * FROM t''" and args = "[]" and w = world0 and r = "Some []" and r' = "Some []"
      and self = "\<lparr>pool = 1, conn = 7, autocommit = True, in_transaction = False\<rparr>"
      and legacy = "\<lparr>amdb_pool = 1\<rparr>"]
    query_returns_rows_never_None [where d = ok_driver
      and sql = "''SELECT * FROM t''" and args = "[]" and w = world0 and r = "Some []" and r' = "Some []"
      and self = "\<lparr>pool = 1, conn = 7, autocommit = True, in_transaction = False\<rparr>"
      and legacy = "\<lparr>amdb_pool = 1\<rparr>"]
  by (simp add: ok_driver_def rows_of_def)

section \<open>The pool configuration and fresh scopes\<close>

lemma map_of_dict_set: "map_of (dict_set k v al) = (map_of al)(k \<mapsto> v)"
  by (induction al) (auto simp: fun_eq_iff)

lemma map_of_foldl_dict_set:
  "k \<notin> fst ` set items \<Longrightarrow>
   map_of (foldl (\<lambda>al (k, v). dict_set k v al) al items) k = map_of al k"
  by (induction items arbitrary: al) (auto simp: map_of_dict_set)

lemma pool_config_autocommit:
  "''autocommit'' \<notin> fst ` set (kwargs a) \<Longrightarrow>
   map_of (pool_config a) ''autocommit'' = Some (CBool True)"
  by (simp add: pool_config_def dict_display_def map_of_foldl_dict_set)

lemma connect_trace:
  "trace (snd (snd (AsyncDatabase_connect d a (self, w)))) = trace w @ [CreatePool (pool_config a)]"
  by (simp add: AsyncDatabase_connect_def snd_bnd fst_drv_ret snd_drv_ret split: option.split)

lemma connect_autocommit:
  "fst (AsyncDatabase_connect d a (self, w)) = Inr u \<longrightarrow>
   adb_autocommit (fst (snd (AsyncDatabase_connect d a (self, w)))) = autocommit_arg a \<and>
   adb_pool (fst (snd (AsyncDatabase_connect d a (self, w)))) = Some (handle d (trace w))"
  by (simp add: AsyncDatabase_connect_def fst_bnd snd_bnd fst_drv_ret snd_drv_ret split: option.split)

lemma get_connection_fresh:
  "adb_pool self = Some p \<Longrightarrow>
   fst (AsyncDatabase_get_connection d (self, w)) = Inr scope \<longrightarrow>
   scope = DatabaseConnection_init p (handle d (trace w)) (adb_autocommit self) \<and>
   snd (AsyncDatabase_get_connection d (self, w)) =
     (self, w\<lparr>trace := trace w @
        [PoolAcquire p, ConnBegin (handle d (trace w)), ConnCommit (handle d (trace w))]\<rparr>)"
  by (simp add: AsyncDatabase_get_connection_def fst_bnd snd_bnd fst_drv_ret snd_drv_ret fst_drv snd_drv
      ret_def split: option.split)

text \<open>
  C10. \<^verbatim>\<open>connect\<close> creates the pool with the option \<open>autocommit\<close> set to \<open>True\<close>, whatever
  its own \<open>autocommit\<close> argument is; the argument is only stored in the instance, for the
  scopes. \<^verbatim>\<open>get_connection\<close> acquires a connection, issues a begin and then a commit on
  it, and hands out a scope on that connection whose flag is false and whose autocommit
  is the stored argument.
\<close>

theorem fresh_scope_has_no_open_transaction:
  "(''autocommit'' \<notin> fst ` set (kwargs a) \<longrightarrow>
      issued w (snd (snd (AsyncDatabase_connect d a (self, w)))) = [CreatePool (pool_config a)] \<and>
      map_of (pool_config a) ''autocommit'' = Some (CBool True) \<and>
      (fst (AsyncDatabase_connect d a (self, w)) = Inr () \<longrightarrow>
         adb_autocommit (fst (snd (AsyncDatabase_connect d a (self, w)))) = autocommit_arg a)) \<and>
   (adb_pool self = Some p \<and> fst (AsyncDatabase_get_connection d (self, w)) = Inr scope \<longrightarrow>
      issued w (snd (snd (AsyncDatabase_get_connection d (self, w)))) =
        [PoolAcquire p, ConnBegin (handle d (trace w)), ConnCommit (handle d (trace w))] \<and>
      pool scope = p \<and> conn scope = handle d (trace w) \<and>
      autocommit scope = adb_autocommit self \<and> in_transaction scope = False)"
  using connect_autocommit [of d a self w "()"] get_connection_fresh [of self p d w scope]
  by (auto simp: issued_def connect_trace pool_config_autocommit DatabaseConnection_init_def)

theorem fresh_scope_has_no_open_transaction_witness:
  "''autocommit'' \<notin> fst ` set (kwargs (connect_defaults\<lparr>autocommit_arg := False,
        kwargs := [(''connect_timeout'', CInt 5)]\<rparr>)) \<and>
   map_of (pool_config (connect_defaults\<lparr>autocommit_arg := False,
        kwargs := [(''connect_timeout'', CInt 5)]\<rparr>)) ''autocommit'' = Some (CBool True) \<and>
   adb_pool \<lparr>adb_pool = Some 1, adb_autocommit = False\<rparr> = Some 1 \<and>
   fst (AsyncDatabase_get_connection ok_driver (\<lparr>adb_pool = Some 1, adb_autocommit = False\<rparr>, world0)) =
     Inr \<lparr>pool = 1, conn = 7, autocommit = False, in_transaction = False\<rparr> \<and>
   issued world0 (snd (snd (AsyncDatabase_get_connection ok_driver
       (\<lparr>adb_pool = Some 1, adb_autocommit = False\<rparr>, world0)))) =
     [PoolAcquire 1, ConnBegin 7, ConnCommit 7]"
proof -
  have scope: "fst (AsyncDatabase_get_connection ok_driver
        (\<lparr>adb_pool = Some 1, adb_autocommit = False\<rparr>, world0)) =
      Inr \<lparr>pool = 1, conn = 7, autocommit = False, in_transaction = False\<rparr>"
    by (simp add: AsyncDatabase_get_connection_def fst_bnd snd_bnd fst_drv_ret snd_drv_ret fst_drv
        snd_drv ret_def DatabaseConnection_init_def ok_driver_def)
  show ?thesis
    using scope fresh_scope_has_no_open_transaction [where d = ok_driver and w = world0
        and self = "\<lparr>adb_pool = Some 1, adb_autocommit = False\<rparr>" and p = 1
        and scope = "\<lparr>pool = 1, conn = 7, autocommit = False, in_transaction = False\<rparr>"
        and a = "connect_defaults\<lparr>autocommit_arg := False, kwargs := [(''connect_timeout'', CInt 5)]\<rparr>"]
    by (simp add: ok_driver_def world0_def)
qed

end
